theory Spec2Isabelle
  imports Complex_Main "HOL-Library.Sublist" "HOL-Library.Multiset" "HOL-Library.Log_Nat"
    "HOL-Library.Word"
begin

section \<open>JavaScript values\<close>

subsection \<open>Numbers\<close>

text \<open>
  A \<^verbatim>\<open>number\<close> is an IEEE 754 double: a finite value, here the rational it denotes, an
  infinity, or NaN. The two zeros are one value: \<^verbatim>\<open>===\<close>, \<^verbatim>\<open>>\<close>, \<^verbatim>\<open>+\<close>, \<^verbatim>\<open>*\<close> and
  JSON, the operations the handlers below apply to numbers, do not tell them apart.
\<close>

datatype number = Num rat | PosInfinity | NegInfinity | NaN

definition pow2 :: "int \<Rightarrow> rat" where
  "pow2 e = (if 0 \<le> e then 2 ^ nat e else 1 / 2 ^ nat (- e))"

text \<open>For \<open>a > 0\<close>, the exponent \<open>e\<close> with \<open>2 ^ e \<le> a < 2 ^ (e + 1)\<close>.\<close>

definition ilog2 :: "rat \<Rightarrow> int" where
  "ilog2 a =
     (let (p, q) = quotient_of a;
          d = bitlen p - bitlen q
      in if pow2 d \<le> a then d else d - 1)"

definition round_half_even :: "rat \<Rightarrow> int" where
  "round_half_even x =
     (let f = \<lfloor>x\<rfloor>; d = x - of_int f
      in if d < 1 / 2 then f else if 1 / 2 < d then f + 1
         else if even f then f else f + 1)"

text \<open>
  Rounding of an exact result to the nearest double, ties to even: the result is a
  multiple \<open>m\<close> of \<open>2 ^ q\<close>, where \<open>q\<close> leaves 53 bits to \<open>m\<close> and is at least \<open>-1074\<close>
  (the subnormal spacing); a result of \<open>2 ^ 1024\<close> or more, that is \<open>q > 971\<close>, or
  \<open>q = 971\<close> with \<open>m = 2 ^ 53\<close>, is an infinity.
\<close>

definition round_double :: "rat \<Rightarrow> number" where
  "round_double x =
     (if x = 0 then Num 0
      else
        let a = \<bar>x\<bar>;
            q = max (ilog2 a - 52) (- 1074);
            m = round_half_even (a / pow2 q)
        in if 971 < q \<or> (q = 971 \<and> 2 ^ 53 \<le> m)
           then (if x < 0 then NegInfinity else PosInfinity)
           else Num (if x < 0 then - (of_int m * pow2 q) else of_int m * pow2 q))"

text \<open>The rationals that are doubles.\<close>

definition is_double :: "rat \<Rightarrow> bool" where
  "is_double x \<longleftrightarrow> round_double x = Num x"

text \<open>A finite factor times an infinity.\<close>

definition sign_times :: "rat \<Rightarrow> number \<Rightarrow> number" where
  "sign_times x w =
     (if x = 0 then NaN
      else if 0 < x then w
      else (case w of PosInfinity \<Rightarrow> NegInfinity | NegInfinity \<Rightarrow> PosInfinity | other \<Rightarrow> other))"

text \<open>The operator \<^verbatim>\<open>*\<close>.\<close>

definition fmul :: "number \<Rightarrow> number \<Rightarrow> number" where
  "fmul a b =
     (case a of
        NaN \<Rightarrow> NaN
      | Num x \<Rightarrow>
          (case b of
             NaN \<Rightarrow> NaN
           | Num y \<Rightarrow> round_double (x * y)
           | PosInfinity \<Rightarrow> sign_times x PosInfinity
           | NegInfinity \<Rightarrow> sign_times x NegInfinity)
      | PosInfinity \<Rightarrow>
          (case b of
             NaN \<Rightarrow> NaN
           | Num y \<Rightarrow> sign_times y PosInfinity
           | PosInfinity \<Rightarrow> PosInfinity
           | NegInfinity \<Rightarrow> NegInfinity)
      | NegInfinity \<Rightarrow>
          (case b of
             NaN \<Rightarrow> NaN
           | Num y \<Rightarrow> sign_times y NegInfinity
           | PosInfinity \<Rightarrow> NegInfinity
           | NegInfinity \<Rightarrow> PosInfinity))"

text \<open>The operator \<^verbatim>\<open>+\<close> on numbers.\<close>

definition fadd :: "number \<Rightarrow> number \<Rightarrow> number" where
  "fadd a b =
     (case a of
        NaN \<Rightarrow> NaN
      | Num x \<Rightarrow> (case b of Num y \<Rightarrow> round_double (x + y) | other \<Rightarrow> other)
      | PosInfinity \<Rightarrow>
          (case b of NaN \<Rightarrow> NaN | NegInfinity \<Rightarrow> NaN | other \<Rightarrow> PosInfinity)
      | NegInfinity \<Rightarrow>
          (case b of NaN \<Rightarrow> NaN | PosInfinity \<Rightarrow> NaN | other \<Rightarrow> NegInfinity))"

text \<open>The operators \<^verbatim>\<open>===\<close> and \<^verbatim>\<open>>\<close> on numbers: NaN equals nothing and exceeds nothing.\<close>

definition js_strict_eq :: "number \<Rightarrow> number \<Rightarrow> bool" where
  "js_strict_eq a b \<longleftrightarrow> a \<noteq> NaN \<and> a = b"

definition js_gt :: "number \<Rightarrow> number \<Rightarrow> bool" where
  "js_gt a b =
     (case a of
        NaN \<Rightarrow> False
      | NegInfinity \<Rightarrow> False
      | PosInfinity \<Rightarrow> (case b of Num y \<Rightarrow> True | NegInfinity \<Rightarrow> True | other \<Rightarrow> False)
      | Num x \<Rightarrow> (case b of Num y \<Rightarrow> y < x | NegInfinity \<Rightarrow> True | other \<Rightarrow> False))"

text \<open>
  A ticket count held in component state, as the number it is: an integer of magnitude
  below \<open>2 ^ 53\<close> is itself.
\<close>

definition number_of_int :: "int \<Rightarrow> number" where
  "number_of_int i = round_double (of_int i)"

subsection \<open>Strings\<close>

text \<open>
  A string that is searched or folded is a sequence of UTF-16 code units. \<open>js\<close> turns a
  literal of characters below 256 into its code units.
\<close>

type_synonym jsstring = "16 word list"

definition js :: "string \<Rightarrow> jsstring" where
  "js s = map of_char s"

text \<open>
  \<^verbatim>\<open>String.prototype.toLowerCase\<close> is the engine's Unicode case mapping; the filter
  below takes it as an argument. On a string whose code units are all below 256 it adds
  32 to the units of A to Z and of U+00C0 to U+00DE other than U+00D7, and keeps every other
  unit; \<open>toLowerCase_latin1\<close> does that, and stands for the engine's function in the
  scenarios, whose strings are of this kind.
\<close>

definition lower_unit :: "16 word \<Rightarrow> 16 word" where
  "lower_unit u =
     (if (0x41 \<le> u \<and> u \<le> 0x5A) \<or> (0xC0 \<le> u \<and> u \<le> 0xDE \<and> u \<noteq> 0xD7)
      then u + 0x20 else u)"

definition toLowerCase_latin1 :: "jsstring \<Rightarrow> jsstring" where
  "toLowerCase_latin1 s = map lower_unit s"

section \<open>Data model\<close>

text \<open>
  The rows of \<^verbatim>\<open>database.types\<close>. Identifiers and timestamps are strings, the
  texts the filter reads are code unit sequences, seat and ticket counts are integers
  (integer columns; the ticket count comes from \<^verbatim>\<open>parseInt(...) || 1\<close>), prices and
  amounts are numbers. Fields shared by several tables carry the table as a prefix.
\<close>

record Event =
  ev_id :: string
  title :: jsstring
  description :: jsstring
  location :: jsstring
  event_date :: string
  price :: number
  category :: jsstring
  capacity :: int
  available_seats :: int
  image_url :: "string option"
  organizer_id :: "string option"
  ev_created_at :: string
  ev_updated_at :: string

datatype booking_status = Confirmed | Cancelled

text \<open>The object literal handed to \<^verbatim>\<open>supabase.from('bookings').insert\<close>.\<close>

record BookingInsert =
  event_id :: string
  user_id :: string
  num_tickets :: int
  total_price :: number
  status :: booking_status

text \<open>A stored booking row: the inserted fields plus the columns the backend fills in.\<close>

record Booking = BookingInsert +
  bk_id :: string
  bk_created_at :: string

text \<open>\<^verbatim>\<open>interface BookingWithEvent extends Booking { event: Event }\<close>\<close>

record BookingWithEvent = Booking +
  event :: Event

record User =
  usr_id :: string
  usr_email :: string

datatype PostgrestError = PostgrestError string

text \<open>The part of the data store the user-facing pages touch.\<close>

record Store =
  events :: "Event list"
  bookings :: "Booking list"

section \<open>Event details: the booking workflow\<close>

text \<open>
  The component's state variables; \<open>event_st\<close> is the state variable \<^verbatim>\<open>event\<close>
  (null until loaded), \<open>redirectTimerRef\<close> holds the delay of the pending redirect.
\<close>

record EventDetailsState =
  event_st :: "Event option"
  loading :: bool
  showBookingModal :: bool
  numTickets :: int
  bookingLoading :: bool
  bookingError :: string
  bookingSuccess :: bool
  redirectTimerRef :: "nat option"

text \<open>What a handler does besides updating component state and the store.\<close>

datatype effect =
    Navigate string
  | BookingsInsert BookingInsert
  | BookingsUpdateStatus booking_status string
  | SetTimeout nat
  | ConsoleError string
  | Alert string

text \<open>
  The backend's answer to an insert: it accepts, choosing the new row's id and creation
  time, or it answers with an error. The backend is outside the source; when it accepts,
  it holds the row as sent.
\<close>

datatype insert_outcome = Accept string string | Reject PostgrestError

definition bookings_insert ::
  "insert_outcome \<Rightarrow> BookingInsert \<Rightarrow> Store \<Rightarrow> PostgrestError option \<times> Store" where
  "bookings_insert out row s =
     (case out of
        Reject e \<Rightarrow> (Some e, s)
      | Accept new_id now \<Rightarrow>
          (None, s\<lparr>bookings := bookings s @
             [BookingInsert.extend row (Booking.fields new_id now)]\<rparr>))"

text \<open>Decimal rendering of an integer, as a template literal prints it.\<close>

fun string_of_nat :: "nat \<Rightarrow> string" where
  "string_of_nat n =
     (if n < 10 then [char_of (48 + n)]
      else string_of_nat (n div 10) @ [char_of (48 + n mod 10)])"

declare string_of_nat.simps [simp del]

definition string_of_int :: "int \<Rightarrow> string" where
  "string_of_int i =
     (if i < 0 then CHR ''-'' # string_of_nat (nat (- i)) else string_of_nat (nat i))"

text \<open>
  \<^verbatim>\<open>handleBooking\<close>, for the current user (null when signed out) and the backend's
  answer \<open>out\<close> to the insert, should one be sent. The range check reads
  \<open>available_seats\<close> from the event held in the component state; the store is not read.
  The result is the new component state, the new store and the effects in order.
\<close>

definition handleBooking ::
  "User option \<Rightarrow> insert_outcome \<Rightarrow> EventDetailsState \<Rightarrow> Store
     \<Rightarrow> EventDetailsState \<times> Store \<times> effect list" where
  "handleBooking user out st s =
     (case user of
        None \<Rightarrow> (st, s, [Navigate ''/login''])
      | Some u \<Rightarrow>
     (case event_st st of
        None \<Rightarrow> (st, s, [])
      | Some ev \<Rightarrow>
          if numTickets st < 1 \<or> numTickets st > available_seats ev then
            (st\<lparr>bookingError := ''Please select between 1 and '' @
                  string_of_int (available_seats ev) @ '' tickets''\<rparr>, s, [])
          else
            let st1 = st\<lparr>bookingError := [], bookingLoading := True\<rparr>;
                row = \<lparr>event_id = ev_id ev, user_id = usr_id u,
                       num_tickets = numTickets st,
                       total_price = fmul (price ev) (number_of_int (numTickets st)),
                       status = Confirmed\<rparr>
            in (case bookings_insert out row s of
                  (Some e, s') \<Rightarrow>
                    (st1\<lparr>bookingError := ''Failed to book event. Please try again.'',
                         bookingLoading := False\<rparr>,
                     s', [BookingsInsert row, ConsoleError ''Error booking event:''])
                | (None, s') \<Rightarrow>
                    (st1\<lparr>bookingSuccess := True, redirectTimerRef := Some 2000,
                         bookingLoading := False\<rparr>,
                     s', [BookingsInsert row, SetTimeout 2000]))))"


text \<open>The booking rows a handler asked the backend to insert, in order.\<close>

fun inserted :: "effect list \<Rightarrow> BookingInsert list" where
  "inserted [] = []"
| "inserted (BookingsInsert r # es) = r # inserted es"
| "inserted (_ # es) = inserted es"

text \<open>
  \<^verbatim>\<open>loadEvent\<close>: \<^verbatim>\<open>.eq('id', id).maybeSingle()\<close> gives the row, null when no row
  matches, and an error when several do; the request may also fail as a whole
  (the \<open>failure\<close> argument). An error is logged and leaves the event as it was.
\<close>

definition events_maybeSingle :: "string \<Rightarrow> Store \<Rightarrow> PostgrestError + Event option" where
  "events_maybeSingle i s =
     (case filter (\<lambda>e. ev_id e = i) (events s) of
        [] \<Rightarrow> Inr None
      | [e] \<Rightarrow> Inr (Some e)
      | _ \<Rightarrow> Inl (PostgrestError ''multiple rows returned''))"

definition loadEvent ::
  "string option \<Rightarrow> PostgrestError option \<Rightarrow> Store \<Rightarrow> EventDetailsState
     \<Rightarrow> EventDetailsState \<times> effect list" where
  "loadEvent ident failure s st =
     (case ident of
        None \<Rightarrow> (st, [])
      | Some i \<Rightarrow>
          if i = [] then (st, [])
          else
            (case (case failure of Some e \<Rightarrow> Inl e | None \<Rightarrow> events_maybeSingle i s) of
               Inl e \<Rightarrow> (st\<lparr>loading := False\<rparr>, [ConsoleError ''Error loading event:''])
             | Inr d \<Rightarrow> (st\<lparr>event_st := d, loading := False\<rparr>, [])))"

text \<open>The component's \<^verbatim>\<open>useState\<close> initial values.\<close>

definition initialDetails :: EventDetailsState where
  "initialDetails =
     \<lparr>event_st = None, loading = True, showBookingModal = False, numTickets = 1,
      bookingLoading = False, bookingError = [], bookingSuccess = False,
      redirectTimerRef = None\<rparr>"

section \<open>Event list: filtering\<close>

datatype price_filter = Price_all | Price_free | Price_paid

fun startsWith :: "jsstring \<Rightarrow> jsstring \<Rightarrow> bool" where
  "startsWith s [] = True"
| "startsWith [] (q # qs) = False"
| "startsWith (c # cs) (q # qs) = (c = q \<and> startsWith cs qs)"

text \<open>\<^verbatim>\<open>s.includes(q)\<close>: \<open>q\<close> occurs in \<open>s\<close> at some position.\<close>

fun includes_str :: "jsstring \<Rightarrow> jsstring \<Rightarrow> bool" where
  "includes_str [] q = (q = [])"
| "includes_str (c # cs) q = (startsWith (c # cs) q \<or> includes_str cs q)"

text \<open>
  The body of the filter effect; the result is what \<^verbatim>\<open>setFilteredEvents\<close> receives.
  The first argument is the engine's \<^verbatim>\<open>toLowerCase\<close>.
\<close>

definition filterEvents ::
  "(jsstring \<Rightarrow> jsstring) \<Rightarrow> Event list \<Rightarrow> jsstring \<Rightarrow> jsstring \<Rightarrow> price_filter
     \<Rightarrow> Event list" where
  "filterEvents toLowerCase evs searchQuery selectedCategory priceFilter =
     (let filtered0 = evs;
          filtered1 =
            (if searchQuery \<noteq> [] then
               (let query = toLowerCase searchQuery
                in filter (\<lambda>e. includes_str (toLowerCase (title e)) query \<or>
                                includes_str (toLowerCase (description e)) query \<or>
                                includes_str (toLowerCase (location e)) query) filtered0)
             else filtered0);
          filtered2 =
            (if selectedCategory \<noteq> js ''All''
             then filter (\<lambda>e. category e = selectedCategory) filtered1
             else filtered1);
          filtered3 =
            (if priceFilter = Price_free
             then filter (\<lambda>e. js_strict_eq (price e) (Num 0)) filtered2
             else if priceFilter = Price_paid
             then filter (\<lambda>e. js_gt (price e) (Num 0)) filtered2
             else filtered2)
      in filtered3)"

text \<open>
  The filter as the specification words it: one predicate per event, with
  \<^const>\<open>sublist\<close> for "is a substring of", \<open>lower\<close> for the lowercase form, price 0 for
  "free" and a price above 0 for "paid".
\<close>

definition matches_spec ::
  "(jsstring \<Rightarrow> jsstring) \<Rightarrow> jsstring \<Rightarrow> jsstring \<Rightarrow> price_filter \<Rightarrow> Event \<Rightarrow> bool" where
  "matches_spec lower q c pf e \<longleftrightarrow>
     (q = [] \<or> sublist (lower q) (lower (title e))
             \<or> sublist (lower q) (lower (description e))
             \<or> sublist (lower q) (lower (location e))) \<and>
     (c = js ''All'' \<or> category e = c) \<and>
     (pf = Price_all \<or> pf = Price_free \<and> price e = Num 0 \<or>
      pf = Price_paid \<and> js_gt (price e) (Num 0))"

section \<open>Dashboard: partition and cancel\<close>

record DashboardState =
  upcomingBookings :: "BookingWithEvent list"
  pastBookings :: "BookingWithEvent list"
  dash_loading :: bool

text \<open>The dashboard's \<^verbatim>\<open>useState\<close> initial values.\<close>

definition initialDashboard :: DashboardState where
  "initialDashboard = \<lparr>upcomingBookings = [], pastBookings = [], dash_loading = True\<rparr>"

text \<open>
  \<^verbatim>\<open>new Date(s) >= now\<close>. The parser is an argument: it gives the time value in
  milliseconds, or \<open>None\<close> for an invalid date, whose comparisons are all false.
\<close>

definition date_ge :: "(string \<Rightarrow> int option) \<Rightarrow> string \<Rightarrow> int \<Rightarrow> bool" where
  "date_ge parse s now = (case parse s of None \<Rightarrow> False | Some d \<Rightarrow> d \<ge> now)"

definition isUpcoming :: "(string \<Rightarrow> int option) \<Rightarrow> int \<Rightarrow> BookingWithEvent \<Rightarrow> bool" where
  "isUpcoming parse now booking \<longleftrightarrow>
     date_ge parse (event_date (event booking)) now \<and> status booking = Confirmed"

text \<open>The \<^verbatim>\<open>forEach\<close> loop, pushing each booking onto one of the two arrays.\<close>

fun partitionBookings ::
  "(string \<Rightarrow> int option) \<Rightarrow> int \<Rightarrow> BookingWithEvent list
     \<Rightarrow> BookingWithEvent list \<times> BookingWithEvent list
     \<Rightarrow> BookingWithEvent list \<times> BookingWithEvent list" where
  "partitionBookings parse now [] (upcoming, past) = (upcoming, past)"
| "partitionBookings parse now (booking # rest) (upcoming, past) =
     (if isUpcoming parse now booking
      then partitionBookings parse now rest (upcoming @ [booking], past)
      else partitionBookings parse now rest (upcoming, past @ [booking]))"

text \<open>
  \<^verbatim>\<open>loadBookings\<close>, given the backend's answer to the joined query: an error, or the
  rows (possibly null), each carrying its event as \<^verbatim>\<open>BookingWithEvent\<close> declares.
\<close>

definition loadBookings ::
  "(string \<Rightarrow> int option) \<Rightarrow> int \<Rightarrow> User option
     \<Rightarrow> PostgrestError + BookingWithEvent list option \<Rightarrow> DashboardState
     \<Rightarrow> DashboardState \<times> effect list" where
  "loadBookings parse now user resp st =
     (case user of
        None \<Rightarrow> (st, [])
      | Some u \<Rightarrow>
          (case resp of
             Inl e \<Rightarrow> (st\<lparr>dash_loading := False\<rparr>, [ConsoleError ''Error loading bookings:''])
           | Inr d \<Rightarrow>
               (let (upcoming, past) =
                      partitionBookings parse now (case d of None \<Rightarrow> [] | Some rows \<Rightarrow> rows)
                        ([], [])
                in (st\<lparr>upcomingBookings := upcoming, pastBookings := past,
                       dash_loading := False\<rparr>, []))))"

text \<open>\<^verbatim>\<open>.from('bookings').update({ status: 'cancelled' }).eq('id', bookingId)\<close>\<close>

definition bookings_update_status ::
  "PostgrestError option \<Rightarrow> booking_status \<Rightarrow> string \<Rightarrow> Store
     \<Rightarrow> PostgrestError option \<times> Store" where
  "bookings_update_status failure new_status bookingId s =
     (case failure of
        Some e \<Rightarrow> (Some e, s)
      | None \<Rightarrow>
          (None, s\<lparr>bookings :=
             map (\<lambda>b. if bk_id b = bookingId then b\<lparr>status := new_status\<rparr> else b)
               (bookings s)\<rparr>))"

text \<open>
  \<^verbatim>\<open>handleCancelBooking\<close>. \<open>confirmed\<close> is the answer to \<^verbatim>\<open>window.confirm\<close>,
  \<open>failure\<close> the backend's answer to the update, \<open>reload\<close> its answer to the awaited
  \<^verbatim>\<open>loadBookings\<close>.
\<close>

definition handleCancelBooking ::
  "(string \<Rightarrow> int option) \<Rightarrow> int \<Rightarrow> User option \<Rightarrow> bool \<Rightarrow> PostgrestError option
     \<Rightarrow> PostgrestError + BookingWithEvent list option \<Rightarrow> string
     \<Rightarrow> DashboardState \<Rightarrow> Store \<Rightarrow> DashboardState \<times> Store \<times> effect list" where
  "handleCancelBooking parse now user confirmed failure reload bookingId st s =
     (if \<not> confirmed then (st, s, [])
      else
        (case bookings_update_status failure Cancelled bookingId s of
           (Some e, s') \<Rightarrow>
             (st, s', [BookingsUpdateStatus Cancelled bookingId,
                       ConsoleError ''Error cancelling booking:'',
                       Alert ''Failed to cancel booking. Please try again.''])
         | (None, s') \<Rightarrow>
             (let (st', effs) = loadBookings parse now user reload st
              in (st', s', BookingsUpdateStatus Cancelled bookingId # effs))))"


section \<open>Admin console\<close>

record Profile =
  pf_id :: string
  email :: string
  full_name :: "string option"
  role :: string
  pf_created_at :: string

record Order =
  od_id :: string
  od_user_id :: string
  od_event_id :: string
  quantity :: int
  total_amount :: "number option"
  od_status :: string
  od_created_at :: string

text \<open>
  The event being edited is a \<^verbatim>\<open>Partial<Event>\<close>: an object with any subset of the
  columns, here a map from property names to values.
\<close>

datatype json = JString string | JNumber rat | JNaN | JBool bool | JNull

type_synonym PartialEvent = "string \<rightharpoonup> json"

text \<open>JavaScript truthiness of a property that may be absent.\<close>

fun truthy :: "json option \<Rightarrow> bool" where
  "truthy None = False"
| "truthy (Some (JString s)) = (s \<noteq> [])"
| "truthy (Some (JNumber n)) = (n \<noteq> 0)"
| "truthy (Some JNaN) = False"
| "truthy (Some (JBool b)) = b"
| "truthy (Some JNull) = False"

datatype toast_type = Toast_ok | Toast_err

record AdminState =
  users :: "Profile list"
  orders :: "Order list"
  toast :: "(string \<times> toast_type) option"
  eventModal :: "PartialEvent option"
  saving :: bool

record AdminStore =
  profiles_tbl :: "Profile list"
  events_tbl :: "PartialEvent list"
  orders_tbl :: "Order list"

datatype admin_effect =
    ProfilesUpdateRole string string
  | EventsUpdate PartialEvent json
  | EventsInsert PartialEvent
  | ToastTimeout nat
  | FetchAll

text \<open>\<^verbatim>\<open>const next = current === 'admin' ? 'user' : 'admin'\<close>\<close>

definition next_role :: "string \<Rightarrow> string" where
  "next_role current = (if current = ''admin'' then ''user'' else ''admin'')"

definition profiles_update_role ::
  "PostgrestError option \<Rightarrow> string \<Rightarrow> string \<Rightarrow> AdminStore
     \<Rightarrow> PostgrestError option \<times> AdminStore" where
  "profiles_update_role failure new_role i s =
     (case failure of
        Some e \<Rightarrow> (Some e, s)
      | None \<Rightarrow>
          (None, s\<lparr>profiles_tbl :=
             map (\<lambda>p. if pf_id p = i then p\<lparr>role := new_role\<rparr> else p)
               (profiles_tbl s)\<rparr>))"

definition toggleRole ::
  "PostgrestError option \<Rightarrow> string \<Rightarrow> string \<Rightarrow> AdminState \<Rightarrow> AdminStore
     \<Rightarrow> AdminState \<times> AdminStore \<times> admin_effect list" where
  "toggleRole failure i current st s =
     (let next = next_role current
      in (case profiles_update_role failure next i s of
            (Some e, s') \<Rightarrow>
              (st\<lparr>toast := Some (''Failed to update role'', Toast_err)\<rparr>, s',
               [ProfilesUpdateRole next i, ToastTimeout 3000])
          | (None, s') \<Rightarrow>
              (st\<lparr>users := map (\<lambda>u. if pf_id u = i then u\<lparr>role := next\<rparr> else u) (users st),
                  toast := Some (''Role updated to '' @ next, Toast_ok)\<rparr>, s',
               [ProfilesUpdateRole next i, ToastTimeout 3000])))"

text \<open>
  \<^verbatim>\<open>.from('events').update(fields).eq('id', id)\<close>: every row with that id takes the
  payload's properties and keeps its other columns.
\<close>

definition events_update ::
  "PostgrestError option \<Rightarrow> PartialEvent \<Rightarrow> json \<Rightarrow> AdminStore
     \<Rightarrow> PostgrestError option \<times> AdminStore" where
  "events_update failure flds i s =
     (case failure of
        Some e \<Rightarrow> (Some e, s)
      | None \<Rightarrow>
          (None, s\<lparr>events_tbl :=
             map (\<lambda>r. if r ''id'' = Some i then r ++ flds else r) (events_tbl s)\<rparr>))"

text \<open>An insert: the backend supplies the id and creation time the payload lacks.\<close>

definition events_insert ::
  "insert_outcome \<Rightarrow> PartialEvent \<Rightarrow> AdminStore \<Rightarrow> PostgrestError option \<times> AdminStore" where
  "events_insert out payload s =
     (case out of
        Reject e \<Rightarrow> (Some e, s)
      | Accept new_id now \<Rightarrow>
          (None, s\<lparr>events_tbl := events_tbl s @
             [[''id'' \<mapsto> JString new_id, ''created_at'' \<mapsto> JString now] ++ payload]\<rparr>))"

text \<open>
  \<^verbatim>\<open>saveEvent\<close>. The destructuring \<^verbatim>\<open>const { id, created_at, ...fields } = eventModal\<close>
  leaves in \<^verbatim>\<open>fields\<close> (here \<open>flds\<close>) every property but those two. \<open>failure\<close> is the backend's answer
  to an update, \<open>out\<close> its answer to an insert. \<^verbatim>\<open>fetchAll()\<close> is started, not awaited.
\<close>

definition saveEvent ::
  "PostgrestError option \<Rightarrow> insert_outcome \<Rightarrow> AdminState \<Rightarrow> AdminStore
     \<Rightarrow> AdminState \<times> AdminStore \<times> admin_effect list" where
  "saveEvent failure out st s =
     (case eventModal st of
        None \<Rightarrow> (st, s, [])
      | Some m \<Rightarrow>
          (let ident = m ''id'';
               flds = m |` (- {''id'', ''created_at''});
               payload = flds(''status'' \<mapsto>
                           (if truthy (flds ''status'') then the (flds ''status'')
                            else JString ''draft''));
               (error, s') =
                 (if truthy ident then events_update failure flds (the ident) s
                  else events_insert out payload s);
               call = (if truthy ident then EventsUpdate flds (the ident)
                       else EventsInsert payload)
           in (case error of
                 Some e \<Rightarrow>
                   (st\<lparr>saving := False, toast := Some (''Failed to save event'', Toast_err)\<rparr>,
                    s', [call, ToastTimeout 3000])
               | None \<Rightarrow>
                   (st\<lparr>saving := False,
                       toast := Some (if truthy ident then ''Event updated''
                                      else ''Event created'', Toast_ok),
                       eventModal := None\<rparr>,
                    s', [call, ToastTimeout 3000, FetchAll]))))"

text \<open>The update payloads a handler sent to the events table.\<close>

fun update_payloads :: "admin_effect list \<Rightarrow> PartialEvent list" where
  "update_payloads [] = []"
| "update_payloads (EventsUpdate f i # es) = f # update_payloads es"
| "update_payloads (_ # es) = update_payloads es"

text \<open>The overview's derived numbers.\<close>

definition totalRevenue :: "Order list \<Rightarrow> number" where
  "totalRevenue os =
     foldl (\<lambda>s ord. fadd s (case total_amount ord of None \<Rightarrow> Num 0 | Some a \<Rightarrow> a)) (Num 0)
       (filter (\<lambda>ord. od_status ord = ''confirmed'' \<or> od_status ord = ''completed'') os)"

text \<open>
  The exact value of a finite number, and the test for a whole amount that is not negative;
  they state when the revenue is an exact sum.
\<close>

definition exact :: "number \<Rightarrow> rat" where
  "exact v = (case v of Num x \<Rightarrow> x | other \<Rightarrow> 0)"

definition whole :: "number \<Rightarrow> bool" where
  "whole v = (case v of Num x \<Rightarrow> 0 \<le> x \<and> of_int \<lfloor>x\<rfloor> = x | other \<Rightarrow> False)"

definition pendingOrders :: "Order list \<Rightarrow> nat" where
  "pendingOrders os = length (filter (\<lambda>ord. od_status ord = ''pending'') os)"

text \<open>
  The specification's words for the revenue: the orders that count, and the amount of an
  order, a missing one being 0.
\<close>

definition counts_as_revenue :: "Order \<Rightarrow> bool" where
  "counts_as_revenue r \<longleftrightarrow> od_status r = ''confirmed'' \<or> od_status r = ''completed''"

definition amount_or_zero :: "Order \<Rightarrow> number" where
  "amount_or_zero r = (case total_amount r of None \<Rightarrow> Num 0 | Some a \<Rightarrow> a)"

section \<open>Example data\<close>

text \<open>
  The scenario of the specification: an event with one seat left out of ten, priced at 25,
  titled "Live Jazz Night" and held at "Music Hall"; a second user, an event in the past,
  three bookings for the dashboard, some orders, two profiles and an event under edit.
  \<open>tenth\<close> and \<open>fifth\<close> are the doubles written 0.1 and 0.2; an event priced at 0.1 with
  three seats, a concert whose title has an accented capital (U+00C9), and two orders of
  0.1 and 0.2 show the rounding and the folding.
\<close>

definition demo_event :: Event where
  "demo_event =
     \<lparr>ev_id = ''e1'', title = js ''Live Jazz Night'',
      description = js ''An evening of standards'', location = js ''Music Hall'',
      event_date = ''2030-06-01T19:00:00Z'', price = Num 25, category = js ''Music'',
      capacity = 10, available_seats = 1, image_url = None,
      organizer_id = None, ev_created_at = ''2026-01-05T09:00:00Z'',
      ev_updated_at = ''2026-01-05T09:00:00Z''\<rparr>"

definition demo_user :: User where
  "demo_user = \<lparr>usr_id = ''u1'', usr_email = ''ann@example.org''\<rparr>"

definition demo_user2 :: User where
  "demo_user2 = \<lparr>usr_id = ''u2'', usr_email = ''bob@example.org''\<rparr>"

definition demo_store :: Store where
  "demo_store = \<lparr>events = [demo_event], bookings = []\<rparr>"

definition demo_details :: EventDetailsState where
  "demo_details = initialDetails\<lparr>event_st := Some demo_event, loading := False,
                                 showBookingModal := True\<rparr>"

definition demo_accept :: insert_outcome where
  "demo_accept = Accept ''b1'' ''2026-11-03T00:00:00Z''"

definition demo_booked :: Store where
  "demo_booked =
     \<lparr>events = [demo_event],
      bookings =
        [\<lparr>event_id = ''e1'', user_id = ''u1'', num_tickets = 1, total_price = Num 25,
          status = Confirmed, bk_id = ''b1'', bk_created_at = ''2026-11-03T00:00:00Z''\<rparr>]\<rparr>"

definition demo_bookings :: Store where
  "demo_bookings =
     \<lparr>events = [demo_event],
      bookings =
        [\<lparr>event_id = ''e1'', user_id = ''u1'', num_tickets = 1, total_price = Num 25,
          status = Confirmed, bk_id = ''b1'', bk_created_at = ''2026-11-03T00:00:00Z''\<rparr>,
         \<lparr>event_id = ''e1'', user_id = ''u2'', num_tickets = 2, total_price = Num 50,
          status = Confirmed, bk_id = ''b2'', bk_created_at = ''2026-11-03T00:05:00Z''\<rparr>]\<rparr>"

definition demo_parse :: "string \<Rightarrow> int option" where
  "demo_parse s =
     (if s = ''2030-06-01T19:00:00Z'' then Some 1906570800000
      else if s = ''2020-03-01T19:00:00Z'' then Some 1583089200000
      else None)"

definition demo_now :: int where
  "demo_now = 1793664000000"

definition demo_old_event :: Event where
  "demo_old_event = demo_event\<lparr>ev_id := ''e0'', title := js ''Spring Gala'',
                                 event_date := ''2020-03-01T19:00:00Z''\<rparr>"

definition demo_b1 :: BookingWithEvent where
  "demo_b1 =
     \<lparr>event_id = ''e1'', user_id = ''u1'', num_tickets = 1, total_price = Num 25,
      status = Confirmed, bk_id = ''b1'', bk_created_at = ''2026-11-03T00:00:00Z'',
      event = demo_event\<rparr>"

definition demo_b2 :: BookingWithEvent where
  "demo_b2 = demo_b1\<lparr>status := Cancelled, bk_id := ''b2''\<rparr>"

definition demo_b3 :: BookingWithEvent where
  "demo_b3 = demo_b1\<lparr>event_id := ''e0'', bk_id := ''b3'', event := demo_old_event\<rparr>"

definition demo_order :: Order where
  "demo_order =
     \<lparr>od_id = ''o1'', od_user_id = ''u1'', od_event_id = ''e1'', quantity = 2,
      total_amount = Some (Num 50), od_status = ''confirmed'',
      od_created_at = ''2026-11-01T10:00:00Z''\<rparr>"

definition demo_orders :: "Order list" where
  "demo_orders =
     [demo_order,
      demo_order\<lparr>od_id := ''o2'', total_amount := Some (Num 20), od_status := ''pending''\<rparr>,
      demo_order\<lparr>od_id := ''o3'', total_amount := None, od_status := ''completed''\<rparr>,
      demo_order\<lparr>od_id := ''o4'', total_amount := Some (Num 70), od_status := ''cancelled''\<rparr>,
      demo_order\<lparr>od_id := ''o5'', total_amount := Some (Num 30), od_status := ''completed''\<rparr>]"

definition tenth :: rat where
  "tenth = 3602879701896397 / 36028797018963968"

definition fifth :: rat where
  "fifth = 3602879701896397 / 18014398509481984"

definition demo_tenth_event :: Event where
  "demo_tenth_event = demo_event\<lparr>ev_id := ''e2'', price := Num tenth, available_seats := 3\<rparr>"

definition demo_cafe_event :: Event where
  "demo_cafe_event =
     demo_event\<lparr>ev_id := ''e3'', title := js ''CAF'' @ [0xC9] @ js '' CONCERT'',
                 location := js ''Town Square''\<rparr>"

definition demo_small_orders :: "Order list" where
  "demo_small_orders =
     [demo_order\<lparr>od_id := ''o6'', total_amount := Some (Num tenth)\<rparr>,
      demo_order\<lparr>od_id := ''o7'', total_amount := Some (Num fifth),
                  od_status := ''completed''\<rparr>]"

definition demo_profile :: Profile where
  "demo_profile =
     \<lparr>pf_id = ''u1'', email = ''ann@example.org'', full_name = Some ''Ann'', role = ''user'',
      pf_created_at = ''2026-01-01T08:00:00Z''\<rparr>"

definition demo_profiles :: "Profile list" where
  "demo_profiles =
     [demo_profile,
      demo_profile\<lparr>pf_id := ''u2'', email := ''bob@example.org'', full_name := None,
                   role := ''admin''\<rparr>]"

definition demo_row :: PartialEvent where
  "demo_row =
     [''id'' \<mapsto> JString ''e1'', ''created_at'' \<mapsto> JString ''2026-01-05T09:00:00Z'',
      ''title'' \<mapsto> JString ''Live Jazz Night'', ''price'' \<mapsto> JNumber 25,
      ''status'' \<mapsto> JString ''draft'']"

definition demo_modal :: PartialEvent where
  "demo_modal = demo_row(''title'' \<mapsto> JString ''Late Jazz Night'', ''price'' \<mapsto> JNumber 30)"

definition demo_admin :: AdminState where
  "demo_admin =
     \<lparr>users = demo_profiles, orders = [], toast = None, eventModal = Some demo_modal,
      saving = False\<rparr>"

definition demo_adminstore :: AdminStore where
  "demo_adminstore =
     \<lparr>profiles_tbl = demo_profiles, events_tbl = [demo_row], orders_tbl = []\<rparr>"

section \<open>Auxiliary facts\<close>

subsection \<open>Numbers\<close>

text \<open>Comparison with zero.\<close>

lemma js_strict_eq_zero: "js_strict_eq p (Num 0) \<longleftrightarrow> p = Num 0"
  by (auto simp: js_strict_eq_def)

text \<open>An integer of magnitude below \<open>2 ^ 53\<close> is a double, so sums and products that stay
  below it are exact.\<close>

lemma round_half_even_of_int: "round_half_even (of_int j) = j"
  by (simp add: round_half_even_def)

lemma bitlen_one: "bitlen 1 = 1"
  by (simp add: bitlen_alt_def)

lemma ilog2_of_int_le:
  assumes "0 < k" and "k < 2 ^ 53"
  shows "ilog2 (of_int k) \<le> 52"
proof -
  from assms(2) have "bitlen k \<le> 53"
    by (simp add: bitlen_le_iff_power)
  then show ?thesis
    by (simp add: ilog2_def Let_def bitlen_one)
qed

lemma round_double_abs_int:
  assumes "0 < k" and "k < 2 ^ 53" and "\<bar>x\<bar> = rat_of_int k"
  shows "round_double x = Num x"
proof -
  define q where "q = max (ilog2 (of_int k) - 52) (- 1074)"
  have q: "q \<le> 0"
    using ilog2_of_int_le [OF assms(1,2)] by (simp add: q_def)
  then have p: "pow2 q = 1 / 2 ^ nat (- q)"
    by (cases "q = 0") (simp_all add: pow2_def)
  have "rat_of_int k / pow2 q = of_int (k * 2 ^ nat (- q))"
    by (simp add: p)
  then have m: "round_half_even (rat_of_int k / pow2 q) = k * 2 ^ nat (- q)"
    by (simp only: round_half_even_of_int)
  have again: "of_int (k * 2 ^ nat (- q)) * pow2 q = rat_of_int k"
    by (simp add: p)
  from assms(1,3) have nz: "x \<noteq> 0"
    by auto
  from assms(3) have sgn: "(if x < 0 then - rat_of_int k else rat_of_int k) = x"
    by (auto simp: abs_if split: if_splits)
  show ?thesis
    unfolding round_double_def Let_def assms(3) q_def [symmetric] m again
    using q nz sgn by simp
qed

lemma round_double_int:
  assumes "\<bar>n\<bar> < 2 ^ 53"
  shows "round_double (of_int n) = Num (of_int n)"
proof (cases "n = 0")
  case True
  then show ?thesis by (simp add: round_double_def)
next
  case False
  with assms have "0 < \<bar>n\<bar>" "\<bar>n\<bar> < 2 ^ 53" "\<bar>rat_of_int n\<bar> = rat_of_int \<bar>n\<bar>"
    by simp_all
  then show ?thesis
    by (rule round_double_abs_int)
qed

lemma fadd_int:
  "\<bar>a + b\<bar> < 2 ^ 53 \<Longrightarrow> fadd (Num (of_int a)) (Num (of_int b)) = Num (of_int (a + b))"
  using round_double_int [of "a + b"] by (simp add: fadd_def)

lemma fmul_int:
  "\<bar>a * b\<bar> < 2 ^ 53 \<Longrightarrow> fmul (Num (of_int a)) (Num (of_int b)) = Num (of_int (a * b))"
  using round_double_int [of "a * b"] by (simp add: fmul_def)

text \<open>
  The rounding is to a nearest multiple of the spacing: \<^const>\<open>ilog2\<close> is the binary
  exponent, and the result is within half a spacing of the exact value.
\<close>

lemma pow2_powi: "pow2 e = 2 powi e"
  by (simp add: pow2_def power_int_def inverse_eq_divide power_one_over)

lemma ilog2_bounds:
  assumes "0 < a"
  shows "pow2 (ilog2 a) \<le> a \<and> a < pow2 (ilog2 a + 1)"
proof -
  obtain p q where pq: "quotient_of a = (p, q)"
    by (cases "quotient_of a")
  then have q: "0 < q" and a: "a = of_int p / of_int q"
    by (simp_all add: quotient_of_denom_pos quotient_of_div)
  with assms have p: "0 < p"
    by (simp add: zero_less_divide_iff)
  define d where "d = bitlen p - bitlen q"
  from bitlen_bounds [OF p] have bp: "2 ^ nat (bitlen p - 1) \<le> p" "p < 2 ^ nat (bitlen p)"
    by blast+
  from bitlen_bounds [OF q] have bq: "2 ^ nat (bitlen q - 1) \<le> q" "q < 2 ^ nat (bitlen q)"
    by blast+
  from p q have lp: "1 \<le> bitlen p" and lq: "1 \<le> bitlen q"
    by (simp_all add: bitlen_alt_def)
  have P1: "(2::rat) powi (bitlen p - 1) \<le> of_int p"
    using bp(1) lp
    by (metis (no_types, opaque_lifting) diff_ge_0_iff_ge int_nat_eq of_int_le_iff of_int_numeral of_int_power power_int_of_nat)
  have P2: "of_int p < (2::rat) powi bitlen p"
    using bp(2) lp
    by (metis (no_types, opaque_lifting) bitlen_nonneg int_nat_eq of_int_less_iff of_int_numeral of_int_power power_int_of_nat)
  have Q1: "(2::rat) powi (bitlen q - 1) \<le> of_int q"
    using bq(1) lq
    by (metis (no_types, opaque_lifting) diff_ge_0_iff_ge int_nat_eq of_int_le_iff of_int_numeral of_int_power power_int_of_nat)
  have Q2: "of_int q < (2::rat) powi bitlen q"
    using bq(2) lq
    by (metis (no_types, opaque_lifting) bitlen_nonneg int_nat_eq of_int_less_iff of_int_numeral of_int_power power_int_of_nat)
  have qpos: "(0::rat) < of_int q" and ppos: "(0::rat) < of_int p"
    using p q by simp_all
  have pw: "(0::rat) < 2 powi k" for k
    by simp
  have up: "a < 2 powi (d + 1)"
  proof -
    have "of_int p * (2::rat) powi (bitlen q - 1) < 2 powi bitlen p * of_int q"
      using P2 Q1 ppos pw [of "bitlen q - 1"]
      by (meson less_le_trans mult_le_cancel_left_pos mult_less_cancel_right_pos order_le_less qpos)
    then have "a * 2 powi (bitlen q - 1) < 2 powi bitlen p"
      using qpos by (simp add: a field_simps)
    then have "a < 2 powi bitlen p / 2 powi (bitlen q - 1)"
      using pw [of "bitlen q - 1"] by (simp add: field_simps)
    also have "\<dots> = 2 powi (bitlen p - (bitlen q - 1))"
      by (simp add: power_int_diff)
    finally show ?thesis
      by (simp add: d_def algebra_simps)
  qed
  have low: "2 powi (d - 1) \<le> a"
  proof -
    have "(2::rat) powi (bitlen p - 1) * of_int q \<le> of_int p * 2 powi bitlen q"
      using P1 Q2 pw [of "bitlen p - 1"] ppos qpos
      by (meson less_imp_le mult_mono order_less_imp_le)
    then have "(2::rat) powi (bitlen p - 1) \<le> a * 2 powi bitlen q"
      using qpos by (simp add: a field_simps)
    then have "(2::rat) powi (bitlen p - 1) / 2 powi bitlen q \<le> a"
      using pw [of "bitlen q"] by (simp add: field_simps)
    moreover have "(2::rat) powi (bitlen p - 1) / 2 powi bitlen q = 2 powi (bitlen p - 1 - bitlen q)"
      by (simp add: power_int_diff)
    ultimately show ?thesis
      by (simp add: d_def algebra_simps)
  qed
  have e: "ilog2 a = (if 2 powi d \<le> a then d else d - 1)"
    by (simp add: ilog2_def pq d_def pow2_powi)
  show ?thesis
    using up low by (auto simp: e pow2_powi)
qed


lemma round_half_even_near: "\<bar>of_int (round_half_even y) - y\<bar> \<le> 1 / 2"
proof -
  define f where "f = \<lfloor>y\<rfloor>"
  define d where "d = y - of_int f"
  have d: "0 \<le> d" "d < 1"
    unfolding d_def f_def by linarith+
  have y: "y = of_int f + d"
    by (simp add: d_def)
  have "round_half_even y = (if d < 1 / 2 then f else if 1 / 2 < d then f + 1
                             else if even f then f else f + 1)"
    by (simp only: round_half_even_def Let_def f_def [symmetric] d_def [symmetric])
  then show ?thesis
    using d by (auto simp: y abs_if)
qed

lemma round_double_near:
  assumes "round_double x = Num r"
  shows "\<bar>r - x\<bar> \<le> pow2 (max (ilog2 \<bar>x\<bar> - 52) (- 1074)) / 2"
proof (cases "x = 0")
  case True
  with assms show ?thesis
    by (simp add: round_double_def pow2_powi)
next
  case False
  define q where "q = max (ilog2 \<bar>x\<bar> - 52) (- 1074)"
  define m where "m = round_half_even (\<bar>x\<bar> / pow2 q)"
  have pq: "0 < pow2 q"
    by (simp add: pow2_powi)
  have "round_double x =
          (if 971 < q \<or> (q = 971 \<and> 2 ^ 53 \<le> m)
           then (if x < 0 then NegInfinity else PosInfinity)
           else Num (if x < 0 then - (of_int m * pow2 q) else of_int m * pow2 q))"
    using False unfolding round_double_def Let_def q_def m_def by (simp only: if_False)
  with assms have r: "r = (if x < 0 then - (of_int m * pow2 q) else of_int m * pow2 q)"
    by (auto split: if_splits)
  then have "\<bar>r - x\<bar> = \<bar>of_int m * pow2 q - \<bar>x\<bar>\<bar>"
    by (auto simp: abs_if)
  also have "of_int m * pow2 q - \<bar>x\<bar> = (of_int m - \<bar>x\<bar> / pow2 q) * pow2 q"
    using pq by (simp add: field_simps)
  also have "\<bar>(of_int m - \<bar>x\<bar> / pow2 q) * pow2 q\<bar> = \<bar>of_int m - \<bar>x\<bar> / pow2 q\<bar> * pow2 q"
    using pq by (simp add: abs_mult)
  also have "\<dots> \<le> 1 / 2 * pow2 q"
    using round_half_even_near [of "\<bar>x\<bar> / pow2 q"] pq
    by (simp only: m_def mult_le_cancel_right_pos)
  finally show ?thesis
    by (simp add: q_def)
qed

lemma whole_int: "whole v \<Longrightarrow> \<exists>n. 0 \<le> n \<and> v = Num (of_int n)"
  by (cases v) (auto simp: whole_def intro: exI [of _ "\<lfloor>x\<rfloor>" for x])

subsection \<open>Strings and the filter\<close>

text \<open>\<^const>\<open>includes_str\<close> is the substring test.\<close>

lemma startsWith_prefix: "startsWith s q \<longleftrightarrow> prefix q s"
  by (induction s q rule: startsWith.induct) auto

lemma includes_str_sublist: "includes_str s q \<longleftrightarrow> sublist q s"
  by (induction s) (auto simp: startsWith_prefix sublist_Cons_right)

text \<open>The three filtering passes amount to one pass with the conjunction of their tests.\<close>

lemma filterEvents_filter:
  "filterEvents lower evs q c pf = filter (matches_spec lower q c pf) evs"
  unfolding filterEvents_def matches_spec_def Let_def
  by (cases pf) (auto simp: includes_str_sublist js_strict_eq_zero intro!: filter_cong)

subsection \<open>Handlers\<close>

text \<open>The partition loop, for any pair of arrays it starts from.\<close>

lemma partitionBookings_filter:
  "partitionBookings parse now rows (up, past) =
     (up @ filter (isUpcoming parse now) rows,
      past @ filter (\<lambda>b. \<not> isUpcoming parse now b) rows)"
  by (induction rows arbitrary: up past) auto

lemma isUpcoming_iff:
  "isUpcoming parse now b \<longleftrightarrow>
     (\<exists>d. parse (event_date (event b)) = Some d \<and> now \<le> d) \<and> status b = Confirmed"
  by (auto simp: isUpcoming_def date_ge_def split: option.splits)

text \<open>The revenue, order by order; with whole amounts it is their exact sum.\<close>

lemma totalRevenue_snoc:
  "totalRevenue (os @ [r]) =
     (if counts_as_revenue r then fadd (totalRevenue os) (amount_or_zero r)
      else totalRevenue os)"
  by (simp add: totalRevenue_def counts_as_revenue_def amount_or_zero_def)

lemma totalRevenue_whole:
  assumes "list_all (\<lambda>r. whole (amount_or_zero r)) (filter counts_as_revenue os)"
    and "(\<Sum>r\<leftarrow>filter counts_as_revenue os. exact (amount_or_zero r)) < 2 ^ 53"
  shows "totalRevenue os = Num (\<Sum>r\<leftarrow>filter counts_as_revenue os. exact (amount_or_zero r)) \<and>
         (\<exists>k. 0 \<le> k \<and>
            (\<Sum>r\<leftarrow>filter counts_as_revenue os. exact (amount_or_zero r)) = of_int k)"
  using assms
proof (induction os rule: rev_induct)
  case Nil
  show ?case
    by (simp add: totalRevenue_def exI [of _ 0])
next
  case (snoc r os)
  show ?case
  proof (cases "counts_as_revenue r")
    case False
    with snoc show ?thesis
      by (simp add: totalRevenue_snoc)
  next
    case True
    with snoc.prems(1) have w: "whole (amount_or_zero r)"
      and ws: "list_all (\<lambda>r. whole (amount_or_zero r)) (filter counts_as_revenue os)"
      by simp_all
    from whole_int [OF w] obtain n where n: "0 \<le> n" "amount_or_zero r = Num (of_int n)"
      by blast
    let ?S = "\<Sum>r\<leftarrow>filter counts_as_revenue os. exact (amount_or_zero r)"
    from snoc.prems(2) True n have total: "?S + of_int n < 2 ^ 53"
      by (simp add: exact_def)
    moreover from n(1) have "0 \<le> rat_of_int n"
      by simp
    ultimately have "?S < 2 ^ 53"
      by linarith
    from snoc.IH [OF ws this] obtain k where k: "0 \<le> k" "?S = of_int k"
      and ih: "totalRevenue os = Num ?S"
      by blast
    from total k(2) have "rat_of_int (k + n) < 2 ^ 53"
      by simp
    then have "k + n < 2 ^ 53"
      by (metis of_int_less_iff of_int_numeral of_int_power)
    with k(1) n(1) have small: "\<bar>k + n\<bar> < 2 ^ 53"
      by simp
    have "totalRevenue (os @ [r]) = fadd (Num (of_int k)) (Num (of_int n))"
      using True ih k(2) n(2) by (simp add: totalRevenue_snoc)
    also have "\<dots> = Num (of_int (k + n))"
      using small by (rule fadd_int)
    finally have r: "totalRevenue (os @ [r]) = Num (of_int (k + n))" .
    have s: "(\<Sum>r\<leftarrow>filter counts_as_revenue (os @ [r]). exact (amount_or_zero r)) =
             of_int (k + n)"
      using True k(2) n(2) by (simp add: exact_def)
    from k(1) n(1) have "0 \<le> k + n"
      by simp
    with r s show ?thesis
      by auto
  qed
qed

text \<open>No branch of the booking handler touches the event rows or the loaded event.\<close>

lemma handleBooking_events: "handleBooking user out st s = (st', s', effs) \<Longrightarrow> events s' = events s"
  by (auto simp: handleBooking_def bookings_insert_def Let_def
      split: option.splits if_splits insert_outcome.splits)

lemma handleBooking_event_st:
  "handleBooking user out st s = (st', s', effs) \<Longrightarrow> event_st st' = event_st st"
  by (auto simp: handleBooking_def bookings_insert_def Let_def
      split: option.splits if_splits insert_outcome.splits)

lemma loadEvent_events:
  "events s' = events s \<Longrightarrow> loadEvent ident failure s' st0 = loadEvent ident failure s st0"
  by (simp add: loadEvent_def events_maybeSingle_def split: option.splits)

text \<open>The store after a confirmed cancel, whatever the backend answers.\<close>

lemma handleCancelBooking_store:
  "handleCancelBooking parse now user True failure reload bookingId st s = (st', s', effs) \<Longrightarrow>
   s' = s\<lparr>bookings := map (\<lambda>b. if bk_id b = bookingId \<and> failure = None
                                  then b\<lparr>status := Cancelled\<rparr> else b) (bookings s)\<rparr>"
  by (cases failure)
     (auto simp: handleCancelBooking_def bookings_update_status_def split: prod.splits)

text \<open>What saving an event with an id sends and stores; a successful role toggle.\<close>

lemma saveEvent_update:
  assumes "eventModal st = Some m" and "truthy (m ''id'')"
  shows "snd (snd (saveEvent failure out st s)) =
           EventsUpdate (m |` (- {''id'', ''created_at''})) (the (m ''id'')) #
           ToastTimeout 3000 # (if failure = None then [FetchAll] else [])"
    and "events_tbl (fst (snd (saveEvent failure out st s))) =
           (if failure = None
            then map (\<lambda>r. if r ''id'' = Some (the (m ''id''))
                           then r ++ (m |` (- {''id'', ''created_at''})) else r) (events_tbl s)
            else events_tbl s)"
  using assms
  by (cases failure; simp add: saveEvent_def events_update_def Let_def)+

lemma toggleRole_ok:
  "toggleRole None i c st s =
     (st\<lparr>users := map (\<lambda>u. if pf_id u = i then u\<lparr>role := next_role c\<rparr> else u) (users st),
         toast := Some (''Role updated to '' @ next_role c, Toast_ok)\<rparr>,
      s\<lparr>profiles_tbl := map (\<lambda>p. if pf_id p = i then p\<lparr>role := next_role c\<rparr> else p)
                            (profiles_tbl s)\<rparr>,
      [ProfilesUpdateRole (next_role c) i, ToastTimeout 3000])"
  by (simp add: toggleRole_def profiles_update_role_def Let_def)

section \<open>Properties of the booking workflow\<close>

text \<open>
  C1. For a signed-in user and a loaded event, the booking operation sends a booking row
  to the backend exactly when the requested ticket count \<open>t\<close> satisfies
  \<open>1 \<le> t \<le> available_seats\<close> of the event as loaded; the row has status confirmed and
  as total price the product \<^verbatim>\<open>event.price * numTickets\<close>, a double. The store gains that
  row, completed by the backend with an id and a creation time, when the backend accepts
  the insert, and is unchanged otherwise. For a whole price \<open>p\<close> with \<open>p \<times> t\<close> below
  \<open>2 ^ 53\<close> in magnitude the product is exactly \<open>p \<times> t\<close>.
\<close>

theorem handleBooking_writes_iff_in_range:
  assumes "event_st st = Some ev"
    and "handleBooking (Some u) out st s = (st', s', effs)"
  shows "inserted effs =
           (if 1 \<le> numTickets st \<and> numTickets st \<le> available_seats ev
            then [\<lparr>event_id = ev_id ev, user_id = usr_id u, num_tickets = numTickets st,
                   total_price = fmul (price ev) (number_of_int (numTickets st)),
                   status = Confirmed\<rparr>]
            else []) \<and>
         bookings s' = bookings s @
           (if 1 \<le> numTickets st \<and> numTickets st \<le> available_seats ev
            then (case out of
                    Accept new_id now \<Rightarrow>
                      [\<lparr>event_id = ev_id ev, user_id = usr_id u, num_tickets = numTickets st,
                        total_price = fmul (price ev) (number_of_int (numTickets st)),
                        status = Confirmed, bk_id = new_id, bk_created_at = now\<rparr>]
                  | Reject e \<Rightarrow> [])
            else []) \<and>
         (price ev = Num (of_int p) \<and> \<bar>numTickets st\<bar> < 2 ^ 53 \<and>
          \<bar>p * numTickets st\<bar> < 2 ^ 53 \<longrightarrow>
            fmul (price ev) (number_of_int (numTickets st)) = Num (of_int (p * numTickets st)))"
proof -
  have sent: "inserted effs =
           (if 1 \<le> numTickets st \<and> numTickets st \<le> available_seats ev
            then [\<lparr>event_id = ev_id ev, user_id = usr_id u, num_tickets = numTickets st,
                   total_price = fmul (price ev) (number_of_int (numTickets st)),
                   status = Confirmed\<rparr>]
            else [])"
    using assms
    by (cases out)
       (auto simp: handleBooking_def bookings_insert_def Let_def split: if_splits)
  have stored: "bookings s' = bookings s @
           (if 1 \<le> numTickets st \<and> numTickets st \<le> available_seats ev
            then (case out of
                    Accept new_id now \<Rightarrow>
                      [\<lparr>event_id = ev_id ev, user_id = usr_id u, num_tickets = numTickets st,
                        total_price = fmul (price ev) (number_of_int (numTickets st)),
                        status = Confirmed, bk_id = new_id, bk_created_at = now\<rparr>]
                  | Reject e \<Rightarrow> [])
            else [])"
    using assms
    by (cases out)
       (auto simp: handleBooking_def bookings_insert_def Let_def BookingInsert.extend_def
           Booking.fields_def split: if_splits)
  have exact_product:
    "fmul (price ev) (number_of_int (numTickets st)) = Num (of_int (p * numTickets st))"
    if "price ev = Num (of_int p)" "\<bar>numTickets st\<bar> < 2 ^ 53" "\<bar>p * numTickets st\<bar> < 2 ^ 53"
    using that by (simp add: number_of_int_def round_double_int fmul_int)
  from sent stored exact_product show ?thesis
    by blast
qed

theorem handleBooking_writes_iff_in_range_witness:
  "event_st demo_details = Some demo_event \<and>
   handleBooking (Some demo_user) demo_accept demo_details demo_store =
     (demo_details\<lparr>bookingSuccess := True, redirectTimerRef := Some 2000\<rparr>,
      demo_store\<lparr>bookings :=
        [\<lparr>event_id = ''e1'', user_id = ''u1'', num_tickets = 1, total_price = Num 25,
          status = Confirmed, bk_id = ''b1'', bk_created_at = ''2026-11-03T00:00:00Z''\<rparr>]\<rparr>,
      [BookingsInsert \<lparr>event_id = ''e1'', user_id = ''u1'', num_tickets = 1,
         total_price = Num 25, status = Confirmed\<rparr>, SetTimeout 2000]) \<and>
   inserted [BookingsInsert \<lparr>event_id = ''e1'', user_id = ''u1'', num_tickets = 1,
         total_price = Num 25, status = Confirmed\<rparr>, SetTimeout 2000] =
     [\<lparr>event_id = ''e1'', user_id = ''u1'', num_tickets = 1, total_price = Num 25,
       status = Confirmed\<rparr>] \<and>
   price demo_event = Num (of_int 25) \<and>
   fmul (price demo_event) (number_of_int (numTickets demo_details)) = Num (of_int (25 * 1)) \<and>
   is_double tenth \<and>
   inserted (snd (snd (handleBooking (Some demo_user) demo_accept
      (demo_details\<lparr>event_st := Some demo_tenth_event, numTickets := 3\<rparr>) demo_store))) =
     [\<lparr>event_id = ''e2'', user_id = ''u1'', num_tickets = 3,
       total_price = Num (5404319552844596 / 18014398509481984), status = Confirmed\<rparr>]"
proof -
  have ev: "event_st demo_details = Some demo_event"
    by (simp add: demo_details_def initialDetails_def)
  have total: "fmul (Num 25) (number_of_int 1) = Num 25"
    by code_simp
  have run: "handleBooking (Some demo_user) demo_accept demo_details demo_store =
     (demo_details\<lparr>bookingSuccess := True, redirectTimerRef := Some 2000\<rparr>,
      demo_store\<lparr>bookings :=
        [\<lparr>event_id = ''e1'', user_id = ''u1'', num_tickets = 1, total_price = Num 25,
          status = Confirmed, bk_id = ''b1'', bk_created_at = ''2026-11-03T00:00:00Z''\<rparr>]\<rparr>,
      [BookingsInsert \<lparr>event_id = ''e1'', user_id = ''u1'', num_tickets = 1,
         total_price = Num 25, status = Confirmed\<rparr>, SetTimeout 2000])"
    by (simp add: handleBooking_def bookings_insert_def demo_details_def initialDetails_def
        demo_event_def demo_user_def demo_store_def demo_accept_def total
        BookingInsert.extend_def Booking.fields_def)
  note first = handleBooking_writes_iff_in_range [OF ev run, of 25]
  from first have sent: "inserted [BookingsInsert \<lparr>event_id = ''e1'', user_id = ''u1'',
         num_tickets = 1, total_price = Num 25, status = Confirmed\<rparr>, SetTimeout 2000] =
     [\<lparr>event_id = ''e1'', user_id = ''u1'', num_tickets = 1, total_price = Num 25,
       status = Confirmed\<rparr>]"
    by simp
  have p: "price demo_event = Num (of_int 25)"
    by (simp add: demo_event_def)
  have t: "\<bar>numTickets demo_details\<bar> < 2 ^ 53" "\<bar>25 * numTickets demo_details\<bar> < 2 ^ 53"
    by (simp_all add: demo_details_def initialDetails_def)
  from first p t
  have "fmul (price demo_event) (number_of_int (numTickets demo_details)) =
        Num (of_int (25 * numTickets demo_details))"
    by blast
  then have whole_price:
    "fmul (price demo_event) (number_of_int (numTickets demo_details)) = Num (of_int (25 * 1))"
    by (simp add: demo_details_def initialDetails_def)
  have d: "is_double tenth"
    unfolding is_double_def tenth_def by code_simp
  let ?st3 = "demo_details\<lparr>event_st := Some demo_tenth_event, numTickets := 3\<rparr>"
  have ev3: "event_st ?st3 = Some demo_tenth_event"
    by simp
  have r3: "handleBooking (Some demo_user) demo_accept ?st3 demo_store =
              (fst (handleBooking (Some demo_user) demo_accept ?st3 demo_store),
               fst (snd (handleBooking (Some demo_user) demo_accept ?st3 demo_store)),
               snd (snd (handleBooking (Some demo_user) demo_accept ?st3 demo_store)))"
    by simp
  have product: "fmul (Num tenth) (number_of_int 3) = Num (5404319552844596 / 18014398509481984)"
    unfolding tenth_def by code_simp
  from handleBooking_writes_iff_in_range [OF ev3 r3]
  have "inserted (snd (snd (handleBooking (Some demo_user) demo_accept ?st3 demo_store))) =
          (if 1 \<le> numTickets ?st3 \<and> numTickets ?st3 \<le> available_seats demo_tenth_event
           then [\<lparr>event_id = ev_id demo_tenth_event, user_id = usr_id demo_user,
                  num_tickets = numTickets ?st3,
                  total_price = fmul (price demo_tenth_event) (number_of_int (numTickets ?st3)),
                  status = Confirmed\<rparr>]
           else [])"
    by blast
  then have third:
    "inserted (snd (snd (handleBooking (Some demo_user) demo_accept ?st3 demo_store))) =
     [\<lparr>event_id = ''e2'', user_id = ''u1'', num_tickets = 3,
       total_price = Num (5404319552844596 / 18014398509481984), status = Confirmed\<rparr>]"
    by (simp add: demo_tenth_event_def demo_event_def demo_user_def product)
  from ev run sent p whole_price d third show ?thesis
    by blast
qed

text \<open>
  C2. An accepted booking writes nothing to the event rows: the store's events, every field
  of each, are as before, and so are the component's loaded event and the result of loading
  the event again. A second booking for the same event, made on any state holding that
  event with a ticket count in range, is therefore sent to the backend as well.
\<close>

theorem handleBooking_leaves_event_row:
  assumes "event_st st = Some ev"
    and "1 \<le> numTickets st" and "numTickets st \<le> available_seats ev"
    and "handleBooking (Some u) out st s = (st', s', effs)"
  shows "events s' = events s \<and> event_st st' = Some ev \<and>
         loadEvent ident failure s' st0 = loadEvent ident failure s st0 \<and>
         (event_st st2 = Some ev \<and> 1 \<le> numTickets st2 \<and> numTickets st2 \<le> available_seats ev
            \<longrightarrow> inserted (snd (snd (handleBooking (Some u2) out2 st2 s'))) =
                  [\<lparr>event_id = ev_id ev, user_id = usr_id u2, num_tickets = numTickets st2,
                    total_price = fmul (price ev) (number_of_int (numTickets st2)),
                    status = Confirmed\<rparr>])"
proof -
  have e: "events s' = events s"
    using assms(4) by (rule handleBooking_events)
  have st: "event_st st' = Some ev"
    using handleBooking_event_st [OF assms(4)] assms(1) by simp
  have l: "loadEvent ident failure s' st0 = loadEvent ident failure s st0"
    using e by (rule loadEvent_events)
  have again: "inserted (snd (snd (handleBooking (Some u2) out2 st2 s'))) =
                  [\<lparr>event_id = ev_id ev, user_id = usr_id u2, num_tickets = numTickets st2,
                    total_price = fmul (price ev) (number_of_int (numTickets st2)),
                    status = Confirmed\<rparr>]"
    if "event_st st2 = Some ev" "1 \<le> numTickets st2" "numTickets st2 \<le> available_seats ev"
    using that
    by (cases out2) (auto simp: handleBooking_def bookings_insert_def Let_def)
  from e st l again show ?thesis by blast
qed

theorem handleBooking_leaves_event_row_witness:
  "event_st demo_details = Some demo_event \<and>
   1 \<le> numTickets demo_details \<and> numTickets demo_details \<le> available_seats demo_event \<and>
   handleBooking (Some demo_user) demo_accept demo_details demo_store =
     (demo_details\<lparr>bookingSuccess := True, redirectTimerRef := Some 2000\<rparr>, demo_booked,
      [BookingsInsert \<lparr>event_id = ''e1'', user_id = ''u1'', num_tickets = 1,
         total_price = Num 25, status = Confirmed\<rparr>, SetTimeout 2000]) \<and>
   events demo_booked = events demo_store \<and>
   fst (loadEvent (Some ''e1'') None demo_booked initialDetails) =
     initialDetails\<lparr>event_st := Some demo_event, loading := False\<rparr> \<and>
   inserted (snd (snd (handleBooking (Some demo_user2) (Accept ''b2'' ''2026-11-03T00:05:00Z'')
       (fst (loadEvent (Some ''e1'') None demo_booked initialDetails)) demo_booked))) =
     [\<lparr>event_id = ''e1'', user_id = ''u2'', num_tickets = 1, total_price = Num 25,
       status = Confirmed\<rparr>]"
proof -
  have ev: "event_st demo_details = Some demo_event"
    by (simp add: demo_details_def initialDetails_def)
  have lo: "1 \<le> numTickets demo_details"
    by (simp add: demo_details_def initialDetails_def)
  have hi: "numTickets demo_details \<le> available_seats demo_event"
    by (simp add: demo_details_def initialDetails_def demo_event_def)
  have total: "fmul (Num 25) (number_of_int 1) = Num 25"
    by code_simp
  have run: "handleBooking (Some demo_user) demo_accept demo_details demo_store =
     (demo_details\<lparr>bookingSuccess := True, redirectTimerRef := Some 2000\<rparr>, demo_booked,
      [BookingsInsert \<lparr>event_id = ''e1'', user_id = ''u1'', num_tickets = 1,
         total_price = Num 25, status = Confirmed\<rparr>, SetTimeout 2000])"
    by (simp add: handleBooking_def bookings_insert_def demo_details_def initialDetails_def
        demo_event_def demo_user_def demo_store_def demo_accept_def demo_booked_def total
        BookingInsert.extend_def Booking.fields_def)
  let ?st2 = "fst (loadEvent (Some ''e1'') None demo_booked initialDetails)"
  have load: "?st2 = initialDetails\<lparr>event_st := Some demo_event, loading := False\<rparr>"
    by (simp add: loadEvent_def events_maybeSingle_def demo_booked_def demo_event_def)
  have ev2: "event_st ?st2 = Some demo_event"
    by (simp only: load) simp
  have t2: "numTickets ?st2 = 1"
    by (simp only: load) (simp add: initialDetails_def)
  have seats: "available_seats demo_event = 1"
    by (simp add: demo_event_def)
  note first = handleBooking_leaves_event_row
      [where ?st2.0 = ?st2 and ?u2.0 = demo_user2
         and ?out2.0 = "Accept ''b2'' ''2026-11-03T00:05:00Z''", OF ev lo hi run]
  from first have same: "events demo_booked = events demo_store"
    by blast
  from first
  have "event_st ?st2 = Some demo_event \<and> 1 \<le> numTickets ?st2 \<and>
        numTickets ?st2 \<le> available_seats demo_event \<longrightarrow>
        inserted (snd (snd (handleBooking (Some demo_user2)
          (Accept ''b2'' ''2026-11-03T00:05:00Z'') ?st2 demo_booked))) =
        [\<lparr>event_id = ev_id demo_event, user_id = usr_id demo_user2,
          num_tickets = numTickets ?st2,
          total_price = fmul (price demo_event) (number_of_int (numTickets ?st2)),
          status = Confirmed\<rparr>]"
    by blast
  with ev2 t2 seats
  have "inserted (snd (snd (handleBooking (Some demo_user2)
          (Accept ''b2'' ''2026-11-03T00:05:00Z'') ?st2 demo_booked))) =
        [\<lparr>event_id = ev_id demo_event, user_id = usr_id demo_user2, num_tickets = 1,
          total_price = fmul (price demo_event) (number_of_int 1), status = Confirmed\<rparr>]"
    by simp
  then have second: "inserted (snd (snd (handleBooking (Some demo_user2)
          (Accept ''b2'' ''2026-11-03T00:05:00Z'') ?st2 demo_booked))) =
        [\<lparr>event_id = ''e1'', user_id = ''u2'', num_tickets = 1, total_price = Num 25,
          status = Confirmed\<rparr>]"
    by (simp add: demo_event_def demo_user2_def total)
  from ev lo hi run same load second show ?thesis
    by blast
qed

text \<open>
  C6. A ticket count outside \<open>[1, available_seats]\<close> makes no backend call: the handler
  has no effect at all, the store is unchanged, and the only change to the component is
  the inline validation message.
\<close>

theorem handleBooking_rejects_out_of_range:
  assumes "event_st st = Some ev"
    and "numTickets st < 1 \<or> numTickets st > available_seats ev"
  shows "handleBooking (Some u) out st s =
           (st\<lparr>bookingError := ''Please select between 1 and '' @
                  string_of_int (available_seats ev) @ '' tickets''\<rparr>, s, [])"
  using assms by (auto simp: handleBooking_def)

theorem handleBooking_rejects_out_of_range_witness:
  "event_st (demo_details\<lparr>numTickets := 2\<rparr>) = Some demo_event \<and>
   (numTickets (demo_details\<lparr>numTickets := 2\<rparr>) < 1 \<or>
    numTickets (demo_details\<lparr>numTickets := 2\<rparr>) > available_seats demo_event) \<and>
   handleBooking (Some demo_user) demo_accept (demo_details\<lparr>numTickets := 2\<rparr>) demo_store =
     (demo_details\<lparr>numTickets := 2,
                   bookingError := ''Please select between 1 and 1 tickets''\<rparr>,
      demo_store, [])"
proof -
  have ev: "event_st (demo_details\<lparr>numTickets := 2\<rparr>) = Some demo_event"
    by (simp add: demo_details_def initialDetails_def)
  have out: "numTickets (demo_details\<lparr>numTickets := 2\<rparr>) < 1 \<or>
             numTickets (demo_details\<lparr>numTickets := 2\<rparr>) > available_seats demo_event"
    by (simp add: demo_event_def)
  have str: "string_of_int (available_seats demo_event) = ''1''"
    by code_simp
  from handleBooking_rejects_out_of_range [OF ev out, of demo_user demo_accept demo_store]
    ev out str show ?thesis by simp
qed

section \<open>Properties of the event filter\<close>

text \<open>
  C3. An event is in the filtered result iff it is in the list and the query is empty or
  its lowercase form is a substring of the lowercase title, description or location, and
  the category is "All" or equals the event's category, and the price filter is all, or
  free with price 0, or paid with a price above 0; this holds whatever function the engine's
  \<^verbatim>\<open>toLowerCase\<close> is. In the scenarios that follow, the query "music" meets "Live Jazz
  Night" at "Music Hall", where only the location matches, and the query "caf" followed
  by U+00E9 meets a title in capitals.
\<close>

theorem filterEvents_membership:
  "filterEvents toLowerCase evs q c pf = filter (matches_spec toLowerCase q c pf) evs \<and>
   (e \<in> set (filterEvents toLowerCase evs q c pf) \<longleftrightarrow>
      e \<in> set evs \<and>
      (q = [] \<or> sublist (toLowerCase q) (toLowerCase (title e))
              \<or> sublist (toLowerCase q) (toLowerCase (description e))
              \<or> sublist (toLowerCase q) (toLowerCase (location e))) \<and>
      (c = js ''All'' \<or> category e = c) \<and>
      (pf = Price_all \<or> pf = Price_free \<and> price e = Num 0 \<or>
       pf = Price_paid \<and> js_gt (price e) (Num 0)))"
  by (simp add: filterEvents_filter) (simp add: matches_spec_def)

theorem filterEvents_membership_witness:
  "demo_event \<in> set (filterEvents toLowerCase_latin1
                       [demo_old_event\<lparr>location := js ''Town Square''\<rparr>, demo_event]
                       (js ''music'') (js ''All'') Price_paid) \<and>
   \<not> sublist (toLowerCase_latin1 (js ''music'')) (toLowerCase_latin1 (title demo_event)) \<and>
   \<not> sublist (toLowerCase_latin1 (js ''music''))
        (toLowerCase_latin1 (description demo_event)) \<and>
   sublist (toLowerCase_latin1 (js ''music'')) (toLowerCase_latin1 (location demo_event)) \<and>
   filterEvents toLowerCase_latin1
     [demo_old_event\<lparr>location := js ''Town Square''\<rparr>, demo_event]
     (js ''music'') (js ''All'') Price_paid = [demo_event] \<and>
   toLowerCase_latin1 (title demo_cafe_event) = js ''caf'' @ [0xE9] @ js '' concert'' \<and>
   filterEvents toLowerCase_latin1 [demo_event, demo_cafe_event]
     (js ''caf'' @ [0xE9]) (js ''Music'') Price_all = [demo_cafe_event]"
proof -
  have t: "\<not> includes_str (toLowerCase_latin1 (title demo_event))
             (toLowerCase_latin1 (js ''music''))"
    by code_simp
  have d: "\<not> includes_str (toLowerCase_latin1 (description demo_event))
             (toLowerCase_latin1 (js ''music''))"
    by code_simp
  have l: "includes_str (toLowerCase_latin1 (location demo_event))
             (toLowerCase_latin1 (js ''music''))"
    by code_simp
  have run: "filterEvents toLowerCase_latin1
     [demo_old_event\<lparr>location := js ''Town Square''\<rparr>, demo_event]
     (js ''music'') (js ''All'') Price_paid = [demo_event]"
    by code_simp
  have fold: "toLowerCase_latin1 (title demo_cafe_event) =
              js ''caf'' @ [0xE9] @ js '' concert''"
    by code_simp
  have cafe: "filterEvents toLowerCase_latin1 [demo_event, demo_cafe_event]
     (js ''caf'' @ [0xE9]) (js ''Music'') Price_all = [demo_cafe_event]"
    by code_simp
  from filterEvents_membership
    [of toLowerCase_latin1 "[demo_old_event\<lparr>location := js ''Town Square''\<rparr>, demo_event]"
        "js ''music''" "js ''All''" Price_paid demo_event] run
  have m: "demo_event \<in> set (filterEvents toLowerCase_latin1
                       [demo_old_event\<lparr>location := js ''Town Square''\<rparr>, demo_event]
                       (js ''music'') (js ''All'') Price_paid)"
    by simp
  from m t d l run fold cafe show ?thesis
    by (simp only: includes_str_sublist) blast
qed

text \<open>
  C7. Filtering is idempotent: filtering the filtered list again with the same query,
  category and price filter gives the same list.
\<close>

theorem filterEvents_idempotent:
  "filterEvents toLowerCase (filterEvents toLowerCase evs q c pf) q c pf =
   filterEvents toLowerCase evs q c pf"
  by (simp add: filterEvents_filter)

theorem filterEvents_idempotent_witness:
  "filterEvents toLowerCase_latin1
     (filterEvents toLowerCase_latin1 [demo_old_event, demo_event]
        (js ''jazz'') (js ''Music'') Price_paid)
     (js ''jazz'') (js ''Music'') Price_paid =
   filterEvents toLowerCase_latin1 [demo_old_event, demo_event]
     (js ''jazz'') (js ''Music'') Price_paid \<and>
   filterEvents toLowerCase_latin1 [demo_old_event, demo_event]
     (js ''jazz'') (js ''Music'') Price_paid = [demo_event]"
proof -
  have "filterEvents toLowerCase_latin1 [demo_old_event, demo_event]
          (js ''jazz'') (js ''Music'') Price_paid = [demo_event]"
    by code_simp
  with filterEvents_idempotent
    [of toLowerCase_latin1 "[demo_old_event, demo_event]" "js ''jazz''" "js ''Music''" Price_paid]
  show ?thesis by simp
qed

section \<open>Properties of the dashboard\<close>

text \<open>
  C4. For the loaded bookings and a fixed current moment, a booking is placed in
  "upcoming" iff its event's date is at or after that moment and its status is confirmed,
  and otherwise in "past or cancelled"; the two lists are disjoint and together hold every
  loaded booking exactly as often as it was loaded.
\<close>

theorem loadBookings_partition:
  assumes "loadBookings parse now (Some u) (Inr (Some rows)) st = (st', effs)"
  shows "upcomingBookings st' =
           filter (\<lambda>b. (\<exists>d. parse (event_date (event b)) = Some d \<and> now \<le> d) \<and>
                        status b = Confirmed) rows \<and>
         pastBookings st' =
           filter (\<lambda>b. \<not> ((\<exists>d. parse (event_date (event b)) = Some d \<and> now \<le> d) \<and>
                           status b = Confirmed)) rows \<and>
         mset (upcomingBookings st') + mset (pastBookings st') = mset rows \<and>
         set (upcomingBookings st') \<inter> set (pastBookings st') = {} \<and>
         set (upcomingBookings st') \<union> set (pastBookings st') = set rows"
proof -
  let ?P = "\<lambda>b. (\<exists>d. parse (event_date (event b)) = Some d \<and> now \<le> d) \<and> status b = Confirmed"
  have P: "isUpcoming parse now = ?P"
    by (rule ext) (rule isUpcoming_iff)
  from assms have up: "upcomingBookings st' = filter ?P rows"
    and past: "pastBookings st' = filter (\<lambda>b. \<not> ?P b) rows"
    by (auto simp: loadBookings_def partitionBookings_filter P)
  have m: "mset (filter ?P rows) + mset (filter (\<lambda>b. \<not> ?P b) rows) = mset rows"
    by (induction rows) auto
  have i: "set (filter ?P rows) \<inter> set (filter (\<lambda>b. \<not> ?P b) rows) = {}"
    by auto
  have un: "set (filter ?P rows) \<union> set (filter (\<lambda>b. \<not> ?P b) rows) = set rows"
    by auto
  show ?thesis
    unfolding up past using m i un by blast
qed

theorem loadBookings_partition_witness:
  "loadBookings demo_parse demo_now (Some demo_user) (Inr (Some [demo_b1, demo_b2, demo_b3]))
     initialDashboard =
     (\<lparr>upcomingBookings = [demo_b1], pastBookings = [demo_b2, demo_b3],
       dash_loading = False\<rparr>, []) \<and>
   mset [demo_b1] + mset [demo_b2, demo_b3] = mset [demo_b1, demo_b2, demo_b3] \<and>
   set [demo_b1] \<inter> set [demo_b2, demo_b3] = {}"
proof -
  have run: "loadBookings demo_parse demo_now (Some demo_user)
      (Inr (Some [demo_b1, demo_b2, demo_b3])) initialDashboard =
     (\<lparr>upcomingBookings = [demo_b1], pastBookings = [demo_b2, demo_b3],
       dash_loading = False\<rparr>, [])"
    by (simp add: loadBookings_def isUpcoming_def date_ge_def demo_parse_def demo_now_def
        demo_b1_def demo_b2_def demo_b3_def demo_event_def demo_old_event_def
        initialDashboard_def)
  let ?st' = "\<lparr>upcomingBookings = [demo_b1], pastBookings = [demo_b2, demo_b3],
                dash_loading = False\<rparr>"
  from loadBookings_partition [OF run]
  have m: "mset (upcomingBookings ?st') + mset (pastBookings ?st') =
           mset [demo_b1, demo_b2, demo_b3]"
    and i: "set (upcomingBookings ?st') \<inter> set (pastBookings ?st') = {}"
    by blast+
  have sel: "upcomingBookings ?st' = [demo_b1]" "pastBookings ?st' = [demo_b2, demo_b3]"
    by simp_all
  from run m i show ?thesis
    unfolding sel by blast
qed

text \<open>
  C5. A confirmed cancel changes only the status of the bookings with the given id, to
  cancelled (and nothing when the backend refuses the update): every other field of those
  bookings, every other booking and every event row are unchanged.
\<close>

theorem handleCancelBooking_changes_only_status:
  assumes "handleCancelBooking parse now user True failure reload bookingId st s =
             (st', s', effs)"
  shows "events s' = events s \<and>
         bookings s' =
           map (\<lambda>b. if bk_id b = bookingId \<and> failure = None
                     then b\<lparr>status := Cancelled\<rparr> else b) (bookings s) \<and>
         list_all2
           (\<lambda>b b'. event_id b' = event_id b \<and> user_id b' = user_id b \<and>
                    num_tickets b' = num_tickets b \<and> total_price b' = total_price b \<and>
                    bk_id b' = bk_id b \<and> bk_created_at b' = bk_created_at b \<and>
                    status b' = (if bk_id b = bookingId \<and> failure = None
                                 then Cancelled else status b))
           (bookings s) (bookings s')"
proof -
  note s' = handleCancelBooking_store [OF assms]
  have e: "events s' = events s"
    by (subst s') simp
  have b: "bookings s' =
           map (\<lambda>b. if bk_id b = bookingId \<and> failure = None
                     then b\<lparr>status := Cancelled\<rparr> else b) (bookings s)"
    by (subst s') simp
  have l: "list_all2
           (\<lambda>b b'. event_id b' = event_id b \<and> user_id b' = user_id b \<and>
                    num_tickets b' = num_tickets b \<and> total_price b' = total_price b \<and>
                    bk_id b' = bk_id b \<and> bk_created_at b' = bk_created_at b \<and>
                    status b' = (if bk_id b = bookingId \<and> failure = None
                                 then Cancelled else status b))
           (bookings s) (bookings s')"
    unfolding b by (simp add: list_all2_map2 list_all2_same)
  from e b l show ?thesis by blast
qed

theorem handleCancelBooking_changes_only_status_witness:
  "handleCancelBooking (\<lambda>s. None) 0 (Some demo_user) True None (Inr (Some [])) ''b1''
     initialDashboard demo_bookings =
     (initialDashboard\<lparr>dash_loading := False\<rparr>,
      \<lparr>events = [demo_event],
       bookings =
        [\<lparr>event_id = ''e1'', user_id = ''u1'', num_tickets = 1, total_price = Num 25,
          status = Cancelled, bk_id = ''b1'', bk_created_at = ''2026-11-03T00:00:00Z''\<rparr>,
         \<lparr>event_id = ''e1'', user_id = ''u2'', num_tickets = 2, total_price = Num 50,
          status = Confirmed, bk_id = ''b2'', bk_created_at = ''2026-11-03T00:05:00Z''\<rparr>]\<rparr>,
      [BookingsUpdateStatus Cancelled ''b1'']) \<and>
   events \<lparr>events = [demo_event],
       bookings =
        [\<lparr>event_id = ''e1'', user_id = ''u1'', num_tickets = 1, total_price = Num 25,
          status = Cancelled, bk_id = ''b1'', bk_created_at = ''2026-11-03T00:00:00Z''\<rparr>,
         \<lparr>event_id = ''e1'', user_id = ''u2'', num_tickets = 2, total_price = Num 50,
          status = Confirmed, bk_id = ''b2'', bk_created_at = ''2026-11-03T00:05:00Z''\<rparr>]\<rparr>
     = events demo_bookings"
proof -
  have run: "handleCancelBooking (\<lambda>s. None) 0 (Some demo_user) True None (Inr (Some [])) ''b1''
     initialDashboard demo_bookings =
     (initialDashboard\<lparr>dash_loading := False\<rparr>,
      \<lparr>events = [demo_event],
       bookings =
        [\<lparr>event_id = ''e1'', user_id = ''u1'', num_tickets = 1, total_price = Num 25,
          status = Cancelled, bk_id = ''b1'', bk_created_at = ''2026-11-03T00:00:00Z''\<rparr>,
         \<lparr>event_id = ''e1'', user_id = ''u2'', num_tickets = 2, total_price = Num 50,
          status = Confirmed, bk_id = ''b2'', bk_created_at = ''2026-11-03T00:05:00Z''\<rparr>]\<rparr>,
      [BookingsUpdateStatus Cancelled ''b1''])"
    by (simp add: handleCancelBooking_def bookings_update_status_def loadBookings_def
        demo_bookings_def initialDashboard_def)
  from handleCancelBooking_changes_only_status [OF run] run show ?thesis
    by blast
qed

section \<open>Properties of the admin console\<close>

text \<open>
  C8. The overview's total revenue is the sum of \<open>total_amount\<close>, a missing amount
  counting as 0, over exactly the orders whose status is confirmed or completed, added as
  doubles from 0 in list order: an order that counts adds its amount to the revenue of the
  orders before it, any other order adds nothing. When the amounts that count are whole
  and their exact sum is below \<open>2 ^ 53\<close>, the revenue is that sum. The pending count is the
  number of orders whose status is pending.
\<close>

theorem overview_revenue_and_pending:
  "totalRevenue [] = Num 0 \<and>
   totalRevenue (os @ [r]) =
     (if od_status r = ''confirmed'' \<or> od_status r = ''completed''
      then fadd (totalRevenue os) (case total_amount r of None \<Rightarrow> Num 0 | Some a \<Rightarrow> a)
      else totalRevenue os) \<and>
   (list_all (\<lambda>r. whole (amount_or_zero r)) (filter counts_as_revenue os) \<and>
    (\<Sum>k<length os. if counts_as_revenue (os ! k) then exact (amount_or_zero (os ! k)) else 0)
      < 2 ^ 53 \<longrightarrow>
    totalRevenue os =
      Num (\<Sum>k<length os.
             if counts_as_revenue (os ! k) then exact (amount_or_zero (os ! k)) else 0)) \<and>
   pendingOrders os = card {k. k < length os \<and> od_status (os ! k) = ''pending''}"
proof -
  have n: "totalRevenue [] = Num 0"
    by (simp add: totalRevenue_def)
  have s: "totalRevenue (os @ [r]) =
     (if od_status r = ''confirmed'' \<or> od_status r = ''completed''
      then fadd (totalRevenue os) (case total_amount r of None \<Rightarrow> Num 0 | Some a \<Rightarrow> a)
      else totalRevenue os)"
    using totalRevenue_snoc [of os r] by (simp add: counts_as_revenue_def amount_or_zero_def)
  let ?f = "\<lambda>r. exact (amount_or_zero r)"
  have "(\<Sum>r\<leftarrow>filter counts_as_revenue os. ?f r) =
        sum_list (map (\<lambda>r. if counts_as_revenue r then ?f r else 0) os)"
    by (rule sum_list_map_filter')
  also have "\<dots> = (\<Sum>k<length os. if counts_as_revenue (os ! k) then ?f (os ! k) else 0)"
    by (simp add: sum_list_sum_nth atLeast0LessThan)
  finally have idx: "(\<Sum>r\<leftarrow>filter counts_as_revenue os. ?f r) =
        (\<Sum>k<length os. if counts_as_revenue (os ! k) then ?f (os ! k) else 0)" .
  have e: "totalRevenue os =
      Num (\<Sum>k<length os.
             if counts_as_revenue (os ! k) then exact (amount_or_zero (os ! k)) else 0)"
    if "list_all (\<lambda>r. whole (amount_or_zero r)) (filter counts_as_revenue os)"
      "(\<Sum>k<length os. if counts_as_revenue (os ! k) then exact (amount_or_zero (os ! k)) else 0)
         < 2 ^ 53"
  proof -
    from that(2) have "(\<Sum>r\<leftarrow>filter counts_as_revenue os. ?f r) < 2 ^ 53"
      by (simp only: idx)
    from totalRevenue_whole [OF that(1) this]
    have "totalRevenue os = Num (\<Sum>r\<leftarrow>filter counts_as_revenue os. ?f r)"
      by blast
    then show ?thesis
      by (simp only: idx)
  qed
  have p: "pendingOrders os = card {k. k < length os \<and> od_status (os ! k) = ''pending''}"
    by (simp add: pendingOrders_def length_filter_conv_card)
  from n s e p show ?thesis
    by blast
qed

theorem overview_revenue_and_pending_witness:
  "totalRevenue demo_orders = Num 80 \<and> pendingOrders demo_orders = 1 \<and>
   list_all (\<lambda>r. whole (amount_or_zero r)) (filter counts_as_revenue demo_orders) \<and>
   (\<Sum>k<length demo_orders.
      if counts_as_revenue (demo_orders ! k) then exact (amount_or_zero (demo_orders ! k))
      else 0) = 80 \<and>
   card {k. k < length demo_orders \<and> od_status (demo_orders ! k) = ''pending''} = 1 \<and>
   is_double tenth \<and> is_double fifth \<and>
   totalRevenue demo_small_orders = Num (5404319552844596 / 18014398509481984) \<and>
   tenth + fifth = 10808639105689191 / 36028797018963968"
proof -
  have p: "pendingOrders demo_orders = 1"
    by (simp add: pendingOrders_def demo_orders_def demo_order_def)
  have w: "list_all (\<lambda>r. whole (amount_or_zero r)) (filter counts_as_revenue demo_orders)"
    by (simp add: demo_orders_def demo_order_def counts_as_revenue_def amount_or_zero_def
        whole_def)
  note inst = overview_revenue_and_pending [of demo_orders]
  from inst p
  have c: "card {k. k < length demo_orders \<and> od_status (demo_orders ! k) = ''pending''} = 1"
    by simp
  have len: "length demo_orders = 5"
    by (simp add: demo_orders_def)
  have sum: "(\<Sum>k<length demo_orders.
      if counts_as_revenue (demo_orders ! k) then exact (amount_or_zero (demo_orders ! k))
      else 0) = 80"
    unfolding len
    by (simp add: lessThan_Suc numeral_eq_Suc demo_orders_def demo_order_def
        counts_as_revenue_def amount_or_zero_def exact_def)
  from inst w sum have r: "totalRevenue demo_orders = Num 80"
    by simp
  have d: "is_double tenth" "is_double fifth"
    unfolding is_double_def tenth_def fifth_def by code_simp+
  have small: "totalRevenue demo_small_orders = Num (5404319552844596 / 18014398509481984)"
    by code_simp
  have x: "tenth + fifth = 10808639105689191 / 36028797018963968"
    by (simp add: tenth_def fifth_def)
  from r p w sum c d small x show ?thesis
    by blast
qed

text \<open>
  C9. Saving an event that has an id sends one update whose payload is the edited object
  without its \<open>id\<close> and \<open>created_at\<close> properties; the stored rows keep their ids and
  creation times.
\<close>

theorem saveEvent_update_keeps_identity:
  assumes "eventModal st = Some m" and "truthy (m ''id'')"
  shows "update_payloads (snd (snd (saveEvent failure out st s))) =
           [m |` (- {''id'', ''created_at''})] \<and>
         (\<forall>f \<in> set (update_payloads (snd (snd (saveEvent failure out st s)))).
            f ''id'' = None \<and> f ''created_at'' = None) \<and>
         map (\<lambda>r. (r ''id'', r ''created_at''))
             (events_tbl (fst (snd (saveEvent failure out st s)))) =
         map (\<lambda>r. (r ''id'', r ''created_at'')) (events_tbl s)"
proof -
  have p: "update_payloads (snd (snd (saveEvent failure out st s))) =
           [m |` (- {''id'', ''created_at''})]"
    by (simp add: saveEvent_update(1) [OF assms])
  have k: "\<forall>f \<in> set (update_payloads (snd (snd (saveEvent failure out st s)))).
            f ''id'' = None \<and> f ''created_at'' = None"
    unfolding p by simp
  have r: "map (\<lambda>r. (r ''id'', r ''created_at''))
             (events_tbl (fst (snd (saveEvent failure out st s)))) =
           map (\<lambda>r. (r ''id'', r ''created_at'')) (events_tbl s)"
    by (simp add: saveEvent_update(2) [OF assms] map_add_def restrict_map_def)
  from p k r show ?thesis by blast
qed

theorem saveEvent_update_keeps_identity_witness:
  "eventModal demo_admin = Some demo_modal \<and> truthy (demo_modal ''id'') \<and>
   update_payloads
     (snd (snd (saveEvent None (Reject (PostgrestError [])) demo_admin demo_adminstore))) =
     [demo_modal |` (- {''id'', ''created_at''})] \<and>
   (demo_modal |` (- {''id'', ''created_at''})) ''id'' = None \<and>
   (demo_modal |` (- {''id'', ''created_at''})) ''created_at'' = None \<and>
   (demo_modal |` (- {''id'', ''created_at''})) ''title'' = Some (JString ''Late Jazz Night'') \<and>
   map (\<lambda>r. (r ''id'', r ''created_at''))
     (events_tbl (fst (snd (saveEvent None (Reject (PostgrestError [])) demo_admin
                              demo_adminstore)))) =
     [(Some (JString ''e1''), Some (JString ''2026-01-05T09:00:00Z''))] \<and>
   map (\<lambda>r. r ''title'')
     (events_tbl (fst (snd (saveEvent None (Reject (PostgrestError [])) demo_admin
                              demo_adminstore)))) =
     [Some (JString ''Late Jazz Night'')]"
proof -
  have m: "eventModal demo_admin = Some demo_modal"
    by (simp add: demo_admin_def)
  have i: "truthy (demo_modal ''id'')"
    by (simp add: demo_modal_def demo_row_def)
  have old: "map (\<lambda>r. (r ''id'', r ''created_at'')) (events_tbl demo_adminstore) =
             [(Some (JString ''e1''), Some (JString ''2026-01-05T09:00:00Z''))]"
    by (simp add: demo_adminstore_def demo_row_def)
  have t: "map (\<lambda>r. r ''title'')
     (events_tbl (fst (snd (saveEvent None (Reject (PostgrestError [])) demo_admin
                              demo_adminstore)))) =
     [Some (JString ''Late Jazz Night'')]"
    by (simp add: saveEvent_def events_update_def demo_admin_def demo_adminstore_def
        demo_modal_def demo_row_def Let_def map_add_def restrict_map_def)
  have k: "(demo_modal |` (- {''id'', ''created_at''})) ''id'' = None"
    "(demo_modal |` (- {''id'', ''created_at''})) ''created_at'' = None"
    "(demo_modal |` (- {''id'', ''created_at''})) ''title'' = Some (JString ''Late Jazz Night'')"
    by (simp_all add: demo_modal_def demo_row_def restrict_map_def)
  note inst = saveEvent_update_keeps_identity
    [OF m i, of None "Reject (PostgrestError [])" demo_adminstore]
  from inst have p: "update_payloads
     (snd (snd (saveEvent None (Reject (PostgrestError [])) demo_admin demo_adminstore))) =
     [demo_modal |` (- {''id'', ''created_at''})]"
    by blast
  from inst old have r: "map (\<lambda>r. (r ''id'', r ''created_at''))
     (events_tbl (fst (snd (saveEvent None (Reject (PostgrestError [])) demo_admin
                              demo_adminstore)))) =
     [(Some (JString ''e1''), Some (JString ''2026-01-05T09:00:00Z''))]"
    by simp
  from m i p k r t show ?thesis
    by blast
qed

text \<open>
  C10. The role toggle always produces "user" or "admin": it maps "admin" to "user" and
  any other value to "admin"; on these two values it is an involution, and two successful
  toggles of a profile whose role is one of them restore that role, in the page's list and
  in the stored profiles.
\<close>

theorem toggleRole_involution:
  "next_role c \<in> {''user'', ''admin''} \<and>
   (c = ''admin'' \<longrightarrow> next_role c = ''user'') \<and>
   (c \<noteq> ''admin'' \<longrightarrow> next_role c = ''admin'') \<and>
   (c \<in> {''user'', ''admin''} \<longrightarrow> next_role (next_role c) = c) \<and>
   (c \<in> {''user'', ''admin''} \<and>
    toggleRole None i c st s = (st1, s1, e1) \<and>
    toggleRole None i (next_role c) st1 s1 = (st2, s2, e2) \<longrightarrow>
      e1 = [ProfilesUpdateRole (next_role c) i, ToastTimeout 3000] \<and>
      users st2 = map (\<lambda>u. if pf_id u = i then u\<lparr>role := c\<rparr> else u) (users st) \<and>
      profiles_tbl s2 =
        map (\<lambda>p. if pf_id p = i then p\<lparr>role := c\<rparr> else p) (profiles_tbl s))"
proof -
  have a: "next_role c \<in> {''user'', ''admin''}"
    by (simp add: next_role_def)
  have b: "c = ''admin'' \<longrightarrow> next_role c = ''user''"
    by (simp add: next_role_def)
  have c: "c \<noteq> ''admin'' \<longrightarrow> next_role c = ''admin''"
    by (simp add: next_role_def)
  have d: "c \<in> {''user'', ''admin''} \<longrightarrow> next_role (next_role c) = c"
    by (auto simp: next_role_def)
  have e: "e1 = [ProfilesUpdateRole (next_role c) i, ToastTimeout 3000] \<and>
      users st2 = map (\<lambda>u. if pf_id u = i then u\<lparr>role := c\<rparr> else u) (users st) \<and>
      profiles_tbl s2 =
        map (\<lambda>p. if pf_id p = i then p\<lparr>role := c\<rparr> else p) (profiles_tbl s)"
    if "c \<in> {''user'', ''admin''}" "toggleRole None i c st s = (st1, s1, e1)"
       "toggleRole None i (next_role c) st1 s1 = (st2, s2, e2)"
  proof -
    from that(1) d have twice: "next_role (next_role c) = c" by blast
    from that(2) have 1: "e1 = [ProfilesUpdateRole (next_role c) i, ToastTimeout 3000]"
      and st1: "users st1 = map (\<lambda>u. if pf_id u = i then u\<lparr>role := next_role c\<rparr> else u) (users st)"
      and s1: "profiles_tbl s1 = map (\<lambda>p. if pf_id p = i then p\<lparr>role := next_role c\<rparr> else p) (profiles_tbl s)"
      by (auto simp: toggleRole_ok)
    from that(3) have st2: "users st2 = map (\<lambda>u. if pf_id u = i then u\<lparr>role := next_role (next_role c)\<rparr> else u) (users st1)"
      and s2: "profiles_tbl s2 = map (\<lambda>p. if pf_id p = i then p\<lparr>role := next_role (next_role c)\<rparr> else p) (profiles_tbl s1)"
      by (auto simp: toggleRole_ok)
    have u: "users st2 = map (\<lambda>u. if pf_id u = i then u\<lparr>role := c\<rparr> else u) (users st)"
      unfolding st2 st1 twice by (simp add: comp_def if_distrib cong: if_cong)
    have p: "profiles_tbl s2 = map (\<lambda>p. if pf_id p = i then p\<lparr>role := c\<rparr> else p) (profiles_tbl s)"
      unfolding s2 s1 twice by (simp add: comp_def if_distrib cong: if_cong)
    from 1 u p show ?thesis by blast
  qed
  from a b c d e show ?thesis by blast
qed

theorem toggleRole_involution_witness:
  "''user'' \<in> {''user'', ''admin''} \<and>
   next_role ''user'' = ''admin'' \<and> next_role ''admin'' = ''user'' \<and>
   next_role ''superadmin'' = ''admin'' \<and>
   map role (users (fst (toggleRole None ''u1'' ''user'' demo_admin demo_adminstore))) =
     [''admin'', ''admin''] \<and>
   users (fst (toggleRole None ''u1'' (next_role ''user'')
                 (fst (toggleRole None ''u1'' ''user'' demo_admin demo_adminstore))
                 (fst (snd (toggleRole None ''u1'' ''user'' demo_admin demo_adminstore))))) =
     users demo_admin \<and>
   profiles_tbl (fst (snd (toggleRole None ''u1'' (next_role ''user'')
                 (fst (toggleRole None ''u1'' ''user'' demo_admin demo_adminstore))
                 (fst (snd (toggleRole None ''u1'' ''user'' demo_admin demo_adminstore)))))) =
     profiles_tbl demo_adminstore"
proof -
  let ?t1 = "toggleRole None ''u1'' ''user'' demo_admin demo_adminstore"
  let ?t2 = "toggleRole None ''u1'' (next_role ''user'') (fst ?t1) (fst (snd ?t1))"
  have h0: "''user'' \<in> {''user'', ''admin''}"
    by simp
  have h1: "?t1 = (fst ?t1, fst (snd ?t1), snd (snd ?t1))"
    by simp
  have h2: "?t2 = (fst ?t2, fst (snd ?t2), snd (snd ?t2))"
    by simp
  note inst = toggleRole_involution
    [where c = "''user''" and i = "''u1''" and st = demo_admin and s = demo_adminstore
       and ?st1.0 = "fst ?t1" and ?s1.0 = "fst (snd ?t1)" and ?e1.0 = "snd (snd ?t1)"
       and ?st2.0 = "fst ?t2" and ?s2.0 = "fst (snd ?t2)" and ?e2.0 = "snd (snd ?t2)"]
  from inst h0 h1 h2
  have u: "users (fst ?t2) =
             map (\<lambda>u. if pf_id u = ''u1'' then u\<lparr>role := ''user''\<rparr> else u) (users demo_admin)"
    and p: "profiles_tbl (fst (snd ?t2)) =
             map (\<lambda>p. if pf_id p = ''u1'' then p\<lparr>role := ''user''\<rparr> else p)
               (profiles_tbl demo_adminstore)"
    by blast+
  have same: "map (\<lambda>u. if pf_id u = ''u1'' then u\<lparr>role := ''user''\<rparr> else u) demo_profiles =
              demo_profiles"
    by (simp add: demo_profiles_def demo_profile_def)
  have n: "next_role ''user'' = ''admin''" "next_role ''admin'' = ''user''"
    "next_role ''superadmin'' = ''admin''"
    by (simp_all add: next_role_def)
  have mid: "map role (users (fst ?t1)) = [''admin'', ''admin'']"
    by (simp add: toggleRole_def profiles_update_role_def next_role_def demo_admin_def
        demo_profiles_def demo_profile_def Let_def)
  have ua: "users demo_admin = demo_profiles" "profiles_tbl demo_adminstore = demo_profiles"
    by (simp_all add: demo_admin_def demo_adminstore_def)
  from u p same ua have u': "users (fst ?t2) = users demo_admin"
    and p': "profiles_tbl (fst (snd ?t2)) = profiles_tbl demo_adminstore"
    by simp_all
  from h0 n mid u' p' show ?thesis
    by blast
qed

end
